theory Spec2Isabelle
  imports Complex_Main "HOL-Library.Sublist" "HOL-Library.Multiset"
begin

section \<open>Conventions of the embedding\<close>

text \<open>
  The development embeds the itinerary-generation pipeline of
  \<^verbatim>\<open>agents/itinerary_generator_agent.py\<close> together with the response schemas of
  \<^verbatim>\<open>schemas/responses.py\<close>.

  \<^item> A Python \<^verbatim>\<open>str\<close> is a \<^typ>\<open>string\<close>; every \<^typ>\<open>char\<close> is read as the Unicode
    code point of the same number (0 to 255).
  \<^item> A Python \<^verbatim>\<open>float\<close> is a \<open>pyfloat\<close>, an IEEE double with its rounding; the score of
    the relevance scorer, a small multiple of 1/2, is the real number it is.
  \<^item> An exception is a value of type \<open>error\<close>; a function that can raise returns
    \<open>error + 'a\<close> with \<open>Inl\<close> for the exception.
  \<^item> Builtins and library calls whose behaviour is fixed by the interpreter and not by
    this repository (\<^verbatim>\<open>float(s)\<close>, \<^verbatim>\<open>str(v)\<close>, \<^verbatim>\<open>repr\<close> of a float, the iteration order
    of a \<^verbatim>\<open>set\<close>, \<^verbatim>\<open>json.loads\<close>, the scalar validators of pydantic) are fields of a
    record \<open>runtime\<close> that every function takes as its first argument. Theorems hold for
    every runtime; concrete evaluations use \<open>ref_runtime\<close>.
\<close>

datatype error =
    ValueError string
  | FloatValueError
  | OverflowError
  | DateValueError
  | KeyError
  | TypeError
  | AttributeError
  | ZeroDivisionError
  | ValidationError
  | JSONDecodeError
  | ExternalError
  | Wrapped error

section \<open>Strings\<close>

text \<open>\<^verbatim>\<open>str.lower\<close> on code points below 256: A-Z and the Latin-1 capitals move up by 32.\<close>

definition lower_char :: "char \<Rightarrow> char" where
  "lower_char c =
     (let n = (of_char c :: nat)
      in if (65 \<le> n \<and> n \<le> 90) \<or> (192 \<le> n \<and> n \<le> 222 \<and> n \<noteq> 215)
         then char_of (n + 32) else c)"

definition lower :: "string \<Rightarrow> string" where
  "lower s = map lower_char s"

text \<open>\<^verbatim>\<open>sub in s\<close> on two strings is \<^const>\<open>sublist\<close>.\<close>

abbreviation str_in :: "string \<Rightarrow> string \<Rightarrow> bool" where
  "str_in sub s \<equiv> sublist sub s"

text \<open>\<^verbatim>\<open>str.isspace\<close> of one character, which is also what \<^verbatim>\<open>\s\<close> matches.\<close>

definition isspace :: "char \<Rightarrow> bool" where
  "isspace c =
     (let n = (of_char c :: nat)
      in (9 \<le> n \<and> n \<le> 13) \<or> (28 \<le> n \<and> n \<le> 32) \<or> n = 133 \<or> n = 160)"

definition lstrip :: "string \<Rightarrow> string" where
  "lstrip s = dropWhile isspace s"

definition rstrip :: "string \<Rightarrow> string" where
  "rstrip s = rev (dropWhile isspace (rev s))"

definition strip :: "string \<Rightarrow> string" where
  "strip s = rstrip (lstrip s)"

definition isdigit :: "char \<Rightarrow> bool" where
  "isdigit c = (let n = (of_char c :: nat) in 48 \<le> n \<and> n \<le> 57)"

definition digit_val :: "char \<Rightarrow> nat" where
  "digit_val c = of_char c - 48"

text \<open>The value of a run of decimal digits, most significant first.\<close>

definition digits_val :: "string \<Rightarrow> nat" where
  "digits_val ds = foldl (\<lambda>acc c. 10 * acc + digit_val c) 0 ds"

section \<open>Floating-point numbers\<close>

text \<open>
  A Python \<^verbatim>\<open>float\<close> is an IEEE 754 double: a finite value (here the real number it
  is, \<open>Finite 0\<close> being the positive zero), the negative zero, an infinity or NaN.
  Arithmetic computes the exact result and rounds it to the nearest double, ties to the
  even mantissa; \<open>round_double\<close> does that for every real number, with the subnormal
  range and the overflow to an infinity.
\<close>

datatype pyfloat = Finite real | NegZero | PosInf | NegInf | NaN

text \<open>The number of binary digits of a positive integer.\<close>

function bit_length :: "int \<Rightarrow> int" where
  "bit_length n = (if n \<le> 0 then 0 else 1 + bit_length (n div 2))"
  by pat_completeness auto
termination
  by (relation "measure nat") auto

definition pow2 :: "int \<Rightarrow> real" where
  "pow2 k = (if 0 \<le> k then 2 ^ nat k else 1 / 2 ^ nat (- k))"

text \<open>For \<open>0 < x\<close>, the \<open>e\<close> with \<open>2 ^ e \<le> x < 2 ^ (e + 1)\<close>.\<close>

definition binade :: "real \<Rightarrow> int" where
  "binade x =
     (if 1 \<le> x then bit_length \<lfloor>x\<rfloor> - 1
      else - bit_length (\<lceil>1 / x\<rceil> - 1))"

definition round_half_even :: "real \<Rightarrow> int" where
  "round_half_even y =
     (let f = \<lfloor>y\<rfloor>; d = y - of_int f
      in if d < 1 / 2 then f
         else if 1 / 2 < d then f + 1
         else if even f then f else f + 1)"

definition round_double :: "real \<Rightarrow> pyfloat" where
  "round_double x =
     (if x = 0 then Finite 0
      else
        (let e = max (binade \<bar>x\<bar>) (- 1022);
             ulp = pow2 (e - 52);
             r = of_int (round_half_even (\<bar>x\<bar> / ulp)) * ulp
         in if pow2 1024 \<le> r then (if x < 0 then NegInf else PosInf)
            else if r = 0 then (if x < 0 then NegZero else Finite 0)
            else Finite (if x < 0 then - r else r)))"

text \<open>\<^verbatim>\<open>float(i)\<close> on an int: OverflowError (here \<open>None\<close>) beyond the range of a double.\<close>

definition float_of_int :: "int \<Rightarrow> pyfloat option" where
  "float_of_int i =
     (case round_double (of_int i) of
        PosInf \<Rightarrow> None
      | NegInf \<Rightarrow> None
      | x \<Rightarrow> Some x)"

definition is_negative :: "pyfloat \<Rightarrow> bool" where
  "is_negative a =
     (case a of Finite x \<Rightarrow> x < 0 | NegZero \<Rightarrow> True | NegInf \<Rightarrow> True | _ \<Rightarrow> False)"

definition is_zero :: "pyfloat \<Rightarrow> bool" where
  "is_zero a = (a = Finite 0 \<or> a = NegZero)"

definition is_inf :: "pyfloat \<Rightarrow> bool" where
  "is_inf a = (a = PosInf \<or> a = NegInf)"

definition signed_zero :: "bool \<Rightarrow> pyfloat" where
  "signed_zero neg = (if neg then NegZero else Finite 0)"

definition signed_inf :: "bool \<Rightarrow> pyfloat" where
  "signed_inf neg = (if neg then NegInf else PosInf)"

definition real_of_float :: "pyfloat \<Rightarrow> real" where
  "real_of_float a = (case a of Finite x \<Rightarrow> x | _ \<Rightarrow> 0)"

text \<open>\<^verbatim>\<open>a * b\<close>, \<^verbatim>\<open>a + b\<close> and \<^verbatim>\<open>a / b\<close> on floats; dividing by a zero raises.\<close>

definition float_mul :: "pyfloat \<Rightarrow> pyfloat \<Rightarrow> pyfloat" where
  "float_mul a b =
     (if a = NaN \<or> b = NaN then NaN
      else
        (let neg = (is_negative a \<noteq> is_negative b)
         in if is_inf a \<or> is_inf b
            then (if is_zero a \<or> is_zero b then NaN else signed_inf neg)
            else if is_zero a \<or> is_zero b then signed_zero neg
            else round_double (real_of_float a * real_of_float b)))"

definition float_add :: "pyfloat \<Rightarrow> pyfloat \<Rightarrow> pyfloat" where
  "float_add a b =
     (if a = NaN \<or> b = NaN then NaN
      else if is_inf a then (if is_inf b \<and> b \<noteq> a then NaN else a)
      else if is_inf b then b
      else if is_zero a \<and> is_zero b then signed_zero (a = NegZero \<and> b = NegZero)
      else round_double (real_of_float a + real_of_float b))"

definition float_div :: "pyfloat \<Rightarrow> pyfloat \<Rightarrow> pyfloat option" where
  "float_div a b =
     (if is_zero b then None
      else if a = NaN \<or> b = NaN then Some NaN
      else
        (let neg = (is_negative a \<noteq> is_negative b)
         in if is_inf a then (if is_inf b then Some NaN else Some (signed_inf neg))
            else if is_inf b \<or> is_zero a then Some (signed_zero neg)
            else Some (round_double (real_of_float a / real_of_float b))))"

text \<open>Decimal digits, and \<^verbatim>\<open>f"{x:.2f}"\<close>: the exact value rounded to two places, ties to even.\<close>

definition digit_char :: "int \<Rightarrow> char" where
  "digit_char n = (if 0 \<le> n \<and> n < 16 then ''0123456789abcdef'' ! nat n else CHR ''?'')"

function show_nat :: "int \<Rightarrow> string" where
  "show_nat n =
     (if n < 10 then [digit_char n]
      else show_nat (n div 10) @ [digit_char (n mod 10)])"
  by pat_completeness auto
termination
  by (relation "measure nat") auto

definition format_2f :: "pyfloat \<Rightarrow> string" where
  "format_2f a =
     (case a of
        Finite x \<Rightarrow>
          (let n = round_half_even (\<bar>x\<bar> * 100)
           in (if x < 0 then ''-'' else [])
              @ show_nat (n div 100) @ ''.''
              @ [digit_char (n mod 100 div 10), digit_char (n mod 10)])
      | NegZero \<Rightarrow> ''-0.00''
      | PosInf \<Rightarrow> ''inf''
      | NegInf \<Rightarrow> ''-inf''
      | NaN \<Rightarrow> ''nan'')"

section \<open>Schemas of the weather and event data\<close>

record WeatherInfo =
  wi_date :: string
  wi_temperature_celsius :: string
  wi_condition :: string
  wi_precipitation_chance :: string
  wi_humidity :: string

record LocalEvent =
  ev_name :: string
  ev_date :: string
  ev_venue :: string
  ev_category :: string
  ev_description :: string
  ev_price_range :: string

record WeatherResponse =
  wr_weather_forecast :: "WeatherInfo list"
  wr_local_events :: "LocalEvent list"

record Activity =
  act_time :: string
  act_description :: string

record Meal =
  meal_type :: string
  meal_suggestion :: string

record Transport =
  tr_time :: string
  tr_description :: string

record Accommodation =
  acc_name :: string
  acc_address :: string
  acc_details :: string

record WeatherSummary =
  ws_description :: string
  ws_recommendations :: string

record EstimatedCosts =
  cost_activities :: pyfloat
  cost_meals :: pyfloat
  cost_transport :: pyfloat
  cost_accommodation :: pyfloat

text \<open>An entry of \<^verbatim>\<open>daily_route\<close>, a dict with exactly these three keys.\<close>

record RouteStop =
  rs_latitude :: pyfloat
  rs_longitude :: pyfloat
  rs_stop_name :: string

record DailyItinerary =
  di_date :: string
  di_activities :: "Activity list"
  di_meals :: "Meal list"
  di_transport :: "Transport list"
  di_accommodation :: Accommodation
  di_weather :: WeatherInfo
  di_estimated_costs :: EstimatedCosts
  di_weather_summary :: WeatherSummary
  di_local_events :: "LocalEvent list"
  di_daily_route :: "RouteStop list"

record TripSummary =
  ts_trip_dates :: string
  ts_destination :: string
  ts_budget :: string
  ts_preferences :: string
  ts_must_visit_places :: string
  ts_trip_goal :: string

record ItineraryResponse =
  ir_trip_summary :: TripSummary
  daily_itineraries :: "DailyItinerary list"
  total_cost :: pyfloat
  ir_recommendations :: "string list"
  ir_weather_forecast :: "WeatherInfo list"
  transport_options :: "(string \<times> string) list list"
  emergency_contacts :: "(string \<times> string) list"
  useful_phrases :: "(string \<times> string) list"

section \<open>Decoded JSON\<close>

text \<open>
  What \<^verbatim>\<open>json.loads\<close> returns. An object is the association list of its dict; a key
  is looked up with \<^const>\<open>map_of\<close>.
\<close>

datatype json =
    JNull
  | JBool bool
  | JInt int
  | JFloat pyfloat
  | JStr string
  | JArr "json list"
  | JObj "(string \<times> json) list"

text \<open>\<^verbatim>\<open>d.get(k, default)\<close> on a dict.\<close>

definition dict_get :: "(string \<times> json) list \<Rightarrow> string \<Rightarrow> json \<Rightarrow> json" where
  "dict_get d k dflt = (case map_of d k of None \<Rightarrow> dflt | Some v \<Rightarrow> v)"

text \<open>\<^verbatim>\<open>v[k]\<close> with a string key: only a dict has one.\<close>

definition subscript :: "json \<Rightarrow> string \<Rightarrow> error + json" where
  "subscript v k =
     (case v of
        JObj d \<Rightarrow> (case map_of d k of None \<Rightarrow> Inl KeyError | Some x \<Rightarrow> Inr x)
      | _ \<Rightarrow> Inl TypeError)"

text \<open>\<^verbatim>\<open>v.get(k, default)\<close>: only a dict has the method.\<close>

definition method_get :: "json \<Rightarrow> string \<Rightarrow> json \<Rightarrow> error + json" where
  "method_get v k dflt = (case v of JObj d \<Rightarrow> Inr (dict_get d k dflt) | _ \<Rightarrow> Inl AttributeError)"

text \<open>\<^verbatim>\<open>k in v\<close> for a string \<open>k\<close>.\<close>

definition py_contains :: "string \<Rightarrow> json \<Rightarrow> error + bool" where
  "py_contains k v =
     (case v of
        JObj d \<Rightarrow> Inr (map_of d k \<noteq> None)
      | JArr xs \<Rightarrow> Inr (JStr k \<in> set xs)
      | JStr s \<Rightarrow> Inr (str_in k s)
      | _ \<Rightarrow> Inl TypeError)"

text \<open>Truth value of a decoded value (\<^verbatim>\<open>not v\<close> is its negation).\<close>

definition truthy :: "json \<Rightarrow> bool" where
  "truthy v =
     (case v of
        JNull \<Rightarrow> False
      | JBool b \<Rightarrow> b
      | JInt i \<Rightarrow> i \<noteq> 0
      | JFloat x \<Rightarrow> \<not> is_zero x
      | JStr s \<Rightarrow> s \<noteq> []
      | JArr xs \<Rightarrow> xs \<noteq> []
      | JObj d \<Rightarrow> d \<noteq> [])"

text \<open>\<^verbatim>\<open>for x in v\<close>: the elements of a list, the keys of a dict, the characters of a string.\<close>

definition py_iter :: "json \<Rightarrow> error + json list" where
  "py_iter v =
     (case v of
        JArr xs \<Rightarrow> Inr xs
      | JObj d \<Rightarrow> Inr (map JStr (remdups (map fst d)))
      | JStr s \<Rightarrow> Inr (map (\<lambda>c. JStr [c]) s)
      | _ \<Rightarrow> Inl TypeError)"

text \<open>\<^verbatim>\<open>**v\<close>: the keyword arguments of a mapping.\<close>

definition kwargs :: "json \<Rightarrow> error + (string \<times> json) list" where
  "kwargs v = (case v of JObj d \<Rightarrow> Inr d | _ \<Rightarrow> Inl TypeError)"

text \<open>Sequencing of steps that can raise, and a comprehension over a step that can raise.\<close>

definition and_then :: "error + 'a \<Rightarrow> ('a \<Rightarrow> error + 'b) \<Rightarrow> error + 'b" where
  "and_then m f = (case m of Inl e \<Rightarrow> Inl e | Inr x \<Rightarrow> f x)"

primrec map_e :: "('a \<Rightarrow> error + 'b) \<Rightarrow> 'a list \<Rightarrow> error + 'b list" where
  "map_e f [] = Inr []"
| "map_e f (x # xs) =
     (case f x of
        Inl e \<Rightarrow> Inl e
      | Inr y \<Rightarrow> (case map_e f xs of Inl e \<Rightarrow> Inl e | Inr ys \<Rightarrow> Inr (y # ys)))"

text \<open>\<^verbatim>\<open>', '.join(xs)\<close>\<close>

fun join :: "string \<Rightarrow> string list \<Rightarrow> string" where
  "join sep [] = []"
| "join sep [x] = x"
| "join sep (x # y # ys) = x @ sep @ join sep (y # ys)"

section \<open>The interpreter's part\<close>

text \<open>
  \<^item> \<open>float_of_str\<close>: \<^verbatim>\<open>float(s)\<close> on a string, \<open>None\<close> when it raises ValueError;
  \<^item> \<open>str_of\<close>: \<^verbatim>\<open>str(v)\<close> on a decoded value;
  \<^item> \<open>str_validator\<close>, \<open>float_validator\<close>: what pydantic makes of a value given for a
    field annotated \<^verbatim>\<open>str\<close> or \<^verbatim>\<open>float\<close>, \<open>None\<close> when it rejects the value;
  \<^item> \<open>json_loads\<close>: \<^verbatim>\<open>json.loads\<close>, \<open>None\<close> when it raises JSONDecodeError;
  \<^item> \<open>repr_float\<close>: \<^verbatim>\<open>repr\<close> of a float, which is also its \<^verbatim>\<open>str\<close> and its JSON text;
  \<^item> \<open>sum_floats\<close>: the builtin \<^verbatim>\<open>sum\<close> on floats (a chain of additions from the left in
    older interpreters, a compensated summation in newer ones);
  \<^item> \<open>set_order\<close>: the order in which a set of strings is iterated, given the elements
    in the order they were added. It depends on the hashes of the strings, which differ
    from one interpreter process to the next.
\<close>

record runtime =
  float_of_str :: "string \<Rightarrow> real option"
  str_of :: "json \<Rightarrow> string"
  str_validator :: "json \<Rightarrow> string option"
  float_validator :: "json \<Rightarrow> pyfloat option"
  json_loads :: "string \<Rightarrow> json option"
  repr_float :: "pyfloat \<Rightarrow> string"
  sum_floats :: "pyfloat list \<Rightarrow> pyfloat"
  set_order :: "string list \<Rightarrow> string list"

text \<open>
  \<^verbatim>\<open>float(v)\<close> on a decoded value: an int beyond the range of a double raises
  OverflowError, text that is no number raises ValueError, and None, a list or a dict
  raises TypeError. For text the float is the finite value that \<open>float_of_str\<close> gives.
\<close>

definition py_float :: "runtime \<Rightarrow> json \<Rightarrow> error + pyfloat" where
  "py_float rt v =
     (case v of
        JInt i \<Rightarrow> (case float_of_int i of None \<Rightarrow> Inl OverflowError | Some x \<Rightarrow> Inr x)
      | JFloat x \<Rightarrow> Inr x
      | JBool b \<Rightarrow> Inr (Finite (if b then 1 else 0))
      | JStr s \<Rightarrow>
          (case float_of_str rt s of None \<Rightarrow> Inl FloatValueError | Some x \<Rightarrow> Inr (Finite x))
      | _ \<Rightarrow> Inl TypeError)"

text \<open>A float literal of the source is the double nearest to its decimal value.\<close>

definition float_literal :: "real \<Rightarrow> pyfloat" where
  "float_literal x = round_double x"

section \<open>A reference instance for concrete evaluation\<close>

text \<open>
  \<open>dec_float\<close> reads a decimal literal as \<^verbatim>\<open>float\<close> does: optional whitespace around
  it, an optional sign, digits with an optional fraction (either side of the point may
  be empty, not both), an optional exponent, single underscores between digits; its
  value is the double nearest to the decimal value. Text that \<^verbatim>\<open>float\<close> reads as an
  infinity or as NaN (inf, infinity, nan and literals beyond the range of a double) is
  outside the instance, which answers \<open>None\<close> there as it does for text that
  \<^verbatim>\<open>float\<close> rejects.
\<close>

definition digit_or_underscore :: "char \<Rightarrow> bool" where
  "digit_or_underscore c = (isdigit c \<or> c = CHR ''_'')"

text \<open>A run of digits with single underscores between digits, or the empty run.\<close>

fun digit_part_ok :: "string \<Rightarrow> bool" where
  "digit_part_ok [] = True"
| "digit_part_ok [c] = isdigit c"
| "digit_part_ok (c # d # r) =
     (isdigit c \<and> (if d = CHR ''_'' then r \<noteq> [] \<and> digit_part_ok r else digit_part_ok (d # r)))"

definition digit_part_val :: "string \<Rightarrow> int" where
  "digit_part_val ds = int (digits_val (filter isdigit ds))"

definition digit_part_len :: "string \<Rightarrow> nat" where
  "digit_part_len ds = length (filter isdigit ds)"

definition dec_exponent :: "string \<Rightarrow> int option" where
  "dec_exponent s =
     (case s of
        [] \<Rightarrow> Some 0
      | c # cs \<Rightarrow>
          if c = CHR ''e'' \<or> c = CHR ''E'' then
            (let (neg, ds) = (case cs of
                                [] \<Rightarrow> (False, cs)
                              | g # r \<Rightarrow>
                                  if g = CHR ''-'' then (True, r)
                                  else if g = CHR ''+'' then (False, r)
                                  else (False, cs))
             in if ds \<noteq> [] \<and> list_all digit_or_underscore ds \<and> digit_part_ok ds
                then Some (if neg then - digit_part_val ds else digit_part_val ds)
                else None)
          else None)"

definition dec_unsigned :: "string \<Rightarrow> real option" where
  "dec_unsigned s =
     (let ip = takeWhile digit_or_underscore s;
          r1 = dropWhile digit_or_underscore s;
          fp = (case r1 of
                  [] \<Rightarrow> []
                | c # cs \<Rightarrow> if c = CHR ''.'' then takeWhile digit_or_underscore cs else []);
          r2 = (case r1 of
                  [] \<Rightarrow> []
                | c # cs \<Rightarrow> if c = CHR ''.'' then dropWhile digit_or_underscore cs else r1)
      in if (ip = [] \<and> fp = []) \<or> \<not> digit_part_ok ip \<or> \<not> digit_part_ok fp then None
         else
           (case dec_exponent r2 of
              None \<Rightarrow> None
            | Some e \<Rightarrow>
                Some ((of_int (digit_part_val ip)
                       + of_int (digit_part_val fp) / 10 ^ digit_part_len fp)
                      * (if e < 0 then 1 / 10 ^ nat (- e) else 10 ^ nat e))))"

definition dec_float :: "string \<Rightarrow> real option" where
  "dec_float s =
     (case (case strip s of
              [] \<Rightarrow> None
            | c # cs \<Rightarrow>
                if c = CHR ''-'' then map_option uminus (dec_unsigned cs)
                else if c = CHR ''+'' then dec_unsigned cs
                else dec_unsigned (c # cs)) of
        None \<Rightarrow> None
      | Some x \<Rightarrow> (case round_double x of Finite y \<Rightarrow> Some y | _ \<Rightarrow> None))"

text \<open>
  \<open>ref_str\<close> is \<^verbatim>\<open>str\<close> on strings, None and booleans, and is left open elsewhere. The
  validators are those of pydantic 2 in its default mode: a \<^verbatim>\<open>str\<close> field takes a string
  only; a \<^verbatim>\<open>float\<close> field takes a float, a boolean, an int within the range of a double,
  or text that is a decimal literal. The sum is the chain of additions from the left,
  starting from 0.
\<close>

definition ref_str :: "json \<Rightarrow> string" where
  "ref_str v =
     (case v of
        JStr s \<Rightarrow> s
      | JNull \<Rightarrow> ''None''
      | JBool b \<Rightarrow> (if b then ''True'' else ''False'')
      | _ \<Rightarrow> undefined)"

definition ref_str_validator :: "json \<Rightarrow> string option" where
  "ref_str_validator v = (case v of JStr s \<Rightarrow> Some s | _ \<Rightarrow> None)"

definition ref_float_validator :: "json \<Rightarrow> pyfloat option" where
  "ref_float_validator v =
     (case v of
        JInt i \<Rightarrow> float_of_int i
      | JFloat x \<Rightarrow> Some x
      | JBool b \<Rightarrow> Some (Finite (if b then 1 else 0))
      | JStr s \<Rightarrow> map_option Finite (dec_float s)
      | _ \<Rightarrow> None)"

definition ref_sum :: "pyfloat list \<Rightarrow> pyfloat" where
  "ref_sum xs = foldl float_add (Finite 0) xs"

section \<open>Relevance scorer\<close>

text \<open>The loop over \<^verbatim>\<open>user_activities\<close>, the score being the loop's state.\<close>

fun activity_loop :: "string \<Rightarrow> string list \<Rightarrow> real \<Rightarrow> real" where
  "activity_loop cat [] score = score"
| "activity_loop cat (activity # rest) score =
     activity_loop cat rest
       (if str_in (lower activity) (lower cat) then score + 1 else score)"

text \<open>
  The loop over \<^verbatim>\<open>weather_forecast\<close>: it stops at the first day of the event's date
  (\<^verbatim>\<open>break\<close>); \<^verbatim>\<open>float(...)\<close> raises on text that is no number.
\<close>

fun weather_loop :: "runtime \<Rightarrow> LocalEvent \<Rightarrow> WeatherInfo list \<Rightarrow> real \<Rightarrow> error + real" where
  "weather_loop rt event [] score = Inr score"
| "weather_loop rt event (weather # rest) score =
     (if wi_date weather = ev_date event then
        (if str_in ''outdoor'' (lower (ev_description event)) then
           (let score1 = (if str_in ''rain'' (lower (wi_condition weather))
                          then score - 1 / 2 else score)
            in case float_of_str rt (wi_precipitation_chance weather) of
                 None \<Rightarrow> Inl FloatValueError
               | Some p \<Rightarrow> Inr (if p > 50 then score1 - 1 / 2 else score1))
         else Inr score)
      else weather_loop rt event rest score)"

definition calculate_event_relevance ::
  "runtime \<Rightarrow> LocalEvent \<Rightarrow> string list \<Rightarrow> WeatherInfo list \<Rightarrow> error + real" where
  "calculate_event_relevance rt event user_activities forecast =
     weather_loop rt event forecast (activity_loop (ev_category event) user_activities 1)"

text \<open>The words of the specification, for comparison with the loops.\<close>

definition interest_matches :: "LocalEvent \<Rightarrow> string list \<Rightarrow> nat" where
  "interest_matches event interests =
     size (filter_mset (\<lambda>i. str_in (lower i) (lower (ev_category event))) (mset interests))"

definition matching_day :: "LocalEvent \<Rightarrow> WeatherInfo list \<Rightarrow> WeatherInfo option" where
  "matching_day event forecast = find (\<lambda>w. wi_date w = ev_date event) forecast"

definition is_outdoor :: "LocalEvent \<Rightarrow> bool" where
  "is_outdoor event = str_in ''outdoor'' (lower (ev_description event))"

definition is_rainy :: "WeatherInfo \<Rightarrow> bool" where
  "is_rainy w = str_in ''rain'' (lower (wi_condition w))"

section \<open>Response repairer\<close>

definition backtick :: char where
  "backtick = CHR 0x60"

definition json_fence :: string where
  "json_fence = [backtick, backtick, backtick] @ ''json''"

definition plain_fence :: string where
  "plain_fence = [backtick, backtick, backtick]"

text \<open>
  \<^verbatim>\<open>s.split(sep)\<close> for a separator that is not empty: \<open>acc\<close> holds, reversed, the piece
  being read.
\<close>

function split_from :: "string \<Rightarrow> string \<Rightarrow> string \<Rightarrow> string list" where
  "split_from sep acc [] = [rev acc]"
| "split_from sep acc (c # cs) =
     (if sep \<noteq> [] \<and> prefix sep (c # cs)
      then rev acc # split_from sep [] (drop (length sep) (c # cs))
      else split_from sep (c # acc) cs)"
  by pat_completeness auto
termination
  by (relation "measure (\<lambda>(sep, acc, s). length s)") (auto simp: neq_Nil_conv)

definition py_split :: "string \<Rightarrow> string \<Rightarrow> string list" where
  "py_split sep s = split_from sep [] s"

text \<open>\<^verbatim>\<open>xs[i]\<close> on a list, for an index that is not negative.\<close>

definition index :: "'a list \<Rightarrow> nat \<Rightarrow> 'a option" where
  "index xs i = (if i < length xs then Some (xs ! i) else None)"

text \<open>
  \<^verbatim>\<open>re.sub(r',(\s*[}\]])', r'\1', s)\<close>: scanning from the left, a comma followed by
  whitespace and a closing brace or bracket is dropped and the scan goes on behind the
  brace or bracket; any other character is kept and the scan goes on behind it.
\<close>

function strip_trailing_commas :: "string \<Rightarrow> string" where
  "strip_trailing_commas [] = []"
| "strip_trailing_commas (c # cs) =
     (if c = CHR '','' then
        (case dropWhile isspace cs of
           [] \<Rightarrow> c # strip_trailing_commas cs
         | b # rest \<Rightarrow>
             if b = CHR ''}'' \<or> b = CHR '']''
             then takeWhile isspace cs @ b # strip_trailing_commas rest
             else c # strip_trailing_commas cs)
      else c # strip_trailing_commas cs)"
  by pat_completeness auto
termination
proof (relation "measure length")
  fix c :: char and cs b rest
  assume "dropWhile isspace cs = b # rest"
  then have "length (b # rest) \<le> length cs"
    by (metis length_dropWhile_le)
  then show "(rest, c # cs) \<in> measure length" by simp
qed auto

text \<open>\<^verbatim>\<open>_clean_json_string\<close>; an exception inside it is re-raised as a ValueError.\<close>

definition clean_json_string :: "string \<Rightarrow> error + string" where
  "clean_json_string json_str =
     (case (if str_in json_fence json_str
            then (case index (py_split json_fence json_str) 1 of
                    None \<Rightarrow> None
                  | Some inner \<Rightarrow> index (py_split plain_fence inner) 0)
            else Some json_str) of
        None \<Rightarrow> Inl (ValueError ''Failed to clean JSON string: list index out of range'')
      | Some s \<Rightarrow> Inr (strip (strip_trailing_commas s)))"

text \<open>\<^verbatim>\<open>re.sub(r'[^\x20-\x7E]', '', s)\<close>\<close>

definition printable :: "char \<Rightarrow> bool" where
  "printable c = (let n = (of_char c :: nat) in 32 \<le> n \<and> n \<le> 126)"

definition remove_non_printable :: "string \<Rightarrow> string" where
  "remove_non_printable s = filter printable s"

text \<open>
  The first part of \<^verbatim>\<open>_parse_itinerary_response\<close>: clean, parse, and on a decoding error
  parse once more without the characters that are not printable.
\<close>

definition repair_and_load :: "runtime \<Rightarrow> string \<Rightarrow> error + json" where
  "repair_and_load rt response_text =
     and_then (clean_json_string response_text) (\<lambda>json_str.
       case json_loads rt json_str of
         Some data \<Rightarrow> Inr data
       | None \<Rightarrow>
           (case json_loads rt (remove_non_printable json_str) of
              Some data \<Rightarrow> Inr data
            | None \<Rightarrow> Inl JSONDecodeError))"

text \<open>
  A comma that the cleaning would drop: one followed by whitespace and a closing brace or
  bracket.
\<close>

definition comma_before_close :: "string \<Rightarrow> bool" where
  "comma_before_close s \<longleftrightarrow>
     (\<exists>p ws b r. s = p @ CHR '','' # ws @ b # r \<and> list_all isspace ws
        \<and> (b = CHR ''}'' \<or> b = CHR '']''))"

section \<open>Structure validation\<close>

definition required_fields :: "string list" where
  "required_fields = [''trip_summary'', ''daily_itineraries'', ''recommendations'']"

definition required_day_fields :: "string list" where
  "required_day_fields = [''date'', ''activities'', ''meals'', ''transport'', ''accommodation'']"

text \<open>\<^verbatim>\<open>[field for field in fields if field not in v]\<close>\<close>

primrec missing_in :: "string list \<Rightarrow> json \<Rightarrow> error + string list" where
  "missing_in [] v = Inr []"
| "missing_in (field # rest) v =
     (case py_contains field v of
        Inl e \<Rightarrow> Inl e
      | Inr present \<Rightarrow>
          (case missing_in rest v of
             Inl e \<Rightarrow> Inl e
           | Inr ms \<Rightarrow> Inr (if present then ms else field # ms)))"

text \<open>The loop over the days of \<^verbatim>\<open>_validate_itinerary_data\<close>.\<close>

fun validate_days :: "json list \<Rightarrow> error + unit" where
  "validate_days [] = Inr ()"
| "validate_days (day # rest) =
     (case day of
        JObj d \<Rightarrow>
          (case missing_in required_day_fields day of
             Inl e \<Rightarrow> Inl e
           | Inr missing_day_fields \<Rightarrow>
               if missing_day_fields \<noteq> []
               then Inl (ValueError (''Missing required fields in day data: ''
                                      @ join '', '' missing_day_fields))
               else validate_days rest)
      | _ \<Rightarrow> Inl (ValueError ''Each day in daily_itineraries must be a dictionary''))"

definition validate_itinerary_data :: "json \<Rightarrow> error + unit" where
  "validate_itinerary_data data =
     (case missing_in required_fields data of
        Inl e \<Rightarrow> Inl e
      | Inr missing_fields \<Rightarrow>
          if missing_fields \<noteq> []
          then Inl (ValueError (''Missing required fields in itinerary data: ''
                                 @ join '', '' missing_fields))
          else
            (case subscript data ''daily_itineraries'' of
               Inl e \<Rightarrow> Inl e
             | Inr days \<Rightarrow>
                 (case days of
                    JArr ds \<Rightarrow>
                      if ds = [] then Inl (ValueError ''daily_itineraries cannot be empty'')
                      else validate_days ds
                  | _ \<Rightarrow> Inl (ValueError ''daily_itineraries must be a list''))))"

section \<open>Constructors of the response schemas\<close>

text \<open>
  A pydantic model called with keyword arguments: a required field must be given and
  valid, a field with a default may be left out, keys that are no fields are ignored.
\<close>

definition required_str :: "runtime \<Rightarrow> (string \<times> json) list \<Rightarrow> string \<Rightarrow> error + string" where
  "required_str rt kw k =
     (case map_of kw k of
        None \<Rightarrow> Inl ValidationError
      | Some v \<Rightarrow> (case str_validator rt v of None \<Rightarrow> Inl ValidationError | Some s \<Rightarrow> Inr s))"

definition optional_str ::
  "runtime \<Rightarrow> (string \<times> json) list \<Rightarrow> string \<Rightarrow> string \<Rightarrow> error + string" where
  "optional_str rt kw k dflt =
     (case map_of kw k of
        None \<Rightarrow> Inr dflt
      | Some v \<Rightarrow> (case str_validator rt v of None \<Rightarrow> Inl ValidationError | Some s \<Rightarrow> Inr s))"

definition optional_float ::
  "runtime \<Rightarrow> (string \<times> json) list \<Rightarrow> string \<Rightarrow> pyfloat \<Rightarrow> error + pyfloat" where
  "optional_float rt kw k dflt =
     (case map_of kw k of
        None \<Rightarrow> Inr dflt
      | Some v \<Rightarrow> (case float_validator rt v of None \<Rightarrow> Inl ValidationError | Some x \<Rightarrow> Inr x))"

definition Activity_init :: "runtime \<Rightarrow> (string \<times> json) list \<Rightarrow> error + Activity" where
  "Activity_init rt kw =
     and_then (required_str rt kw ''time'') (\<lambda>t.
     and_then (required_str rt kw ''description'') (\<lambda>d.
     Inr \<lparr>act_time = t, act_description = d\<rparr>))"

definition Meal_init :: "runtime \<Rightarrow> (string \<times> json) list \<Rightarrow> error + Meal" where
  "Meal_init rt kw =
     and_then (required_str rt kw ''type'') (\<lambda>t.
     and_then (required_str rt kw ''suggestion'') (\<lambda>s.
     Inr \<lparr>meal_type = t, meal_suggestion = s\<rparr>))"

definition Transport_init :: "runtime \<Rightarrow> (string \<times> json) list \<Rightarrow> error + Transport" where
  "Transport_init rt kw =
     and_then (required_str rt kw ''time'') (\<lambda>t.
     and_then (required_str rt kw ''description'') (\<lambda>d.
     Inr \<lparr>tr_time = t, tr_description = d\<rparr>))"

definition LocalEvent_init :: "runtime \<Rightarrow> (string \<times> json) list \<Rightarrow> error + LocalEvent" where
  "LocalEvent_init rt kw =
     and_then (required_str rt kw ''name'') (\<lambda>n.
     and_then (required_str rt kw ''date'') (\<lambda>d.
     and_then (required_str rt kw ''venue'') (\<lambda>v.
     and_then (required_str rt kw ''category'') (\<lambda>c.
     and_then (optional_str rt kw ''description'' '''') (\<lambda>ds.
     and_then (optional_str rt kw ''price_range'' '''') (\<lambda>p.
     Inr \<lparr>ev_name = n, ev_date = d, ev_venue = v, ev_category = c,
          ev_description = ds, ev_price_range = p\<rparr>))))))"

definition EstimatedCosts_init ::
  "runtime \<Rightarrow> (string \<times> json) list \<Rightarrow> error + EstimatedCosts" where
  "EstimatedCosts_init rt kw =
     and_then (optional_float rt kw ''activities'' (Finite 0)) (\<lambda>a.
     and_then (optional_float rt kw ''meals'' (Finite 0)) (\<lambda>m.
     and_then (optional_float rt kw ''transport'' (Finite 0)) (\<lambda>t.
     and_then (optional_float rt kw ''accommodation'' (Finite 0)) (\<lambda>h.
     Inr \<lparr>cost_activities = a, cost_meals = m, cost_transport = t,
          cost_accommodation = h\<rparr>))))"

definition WeatherSummary_init ::
  "runtime \<Rightarrow> (string \<times> json) list \<Rightarrow> error + WeatherSummary" where
  "WeatherSummary_init rt kw =
     and_then (required_str rt kw ''description'') (\<lambda>d.
     and_then (required_str rt kw ''recommendations'') (\<lambda>r.
     Inr \<lparr>ws_description = d, ws_recommendations = r\<rparr>))"

definition TripSummary_init :: "runtime \<Rightarrow> (string \<times> json) list \<Rightarrow> error + TripSummary" where
  "TripSummary_init rt kw =
     and_then (required_str rt kw ''trip_dates'') (\<lambda>a.
     and_then (required_str rt kw ''destination'') (\<lambda>b.
     and_then (required_str rt kw ''budget'') (\<lambda>c.
     and_then (required_str rt kw ''preferences'') (\<lambda>d.
     and_then (required_str rt kw ''must_visit_places'') (\<lambda>e.
     and_then (required_str rt kw ''trip_goal'') (\<lambda>f.
     Inr \<lparr>ts_trip_dates = a, ts_destination = b, ts_budget = c, ts_preferences = d,
          ts_must_visit_places = e, ts_trip_goal = f\<rparr>))))))"

text \<open>
  \<^verbatim>\<open>Accommodation\<close> has a validator on its three fields. For an empty value it
  evaluates \<^verbatim>\<open>cls.__fields_set__.pop()\<close>, an attribute the class does not have as a set, and
  raises; the defaults of \<^verbatim>\<open>Accommodation()\<close> are not validated.
\<close>

definition Accommodation_init :: "string \<Rightarrow> string \<Rightarrow> string \<Rightarrow> error + Accommodation" where
  "Accommodation_init n a d =
     (if n = [] \<or> a = [] \<or> d = [] then Inl AttributeError
      else Inr \<lparr>acc_name = n, acc_address = a, acc_details = d\<rparr>)"

definition Accommodation_default :: Accommodation where
  "Accommodation_default =
     \<lparr>acc_name = ''Default Hotel'', acc_address = ''City Center'',
      acc_details = ''Standard Accommodation''\<rparr>"

text \<open>A field annotated \<^verbatim>\<open>List[str]\<close>.\<close>

definition list_str_validator :: "runtime \<Rightarrow> json \<Rightarrow> error + string list" where
  "list_str_validator rt v =
     (case v of
        JArr xs \<Rightarrow>
          map_e (\<lambda>x. case str_validator rt x of None \<Rightarrow> Inl ValidationError | Some s \<Rightarrow> Inr s) xs
      | _ \<Rightarrow> Inl ValidationError)"

section \<open>Itinerary assembler: one day\<close>

text \<open>Step (i): the forecast day of the plan's date, or a placeholder.\<close>

fun find_weather :: "WeatherInfo list \<Rightarrow> json \<Rightarrow> WeatherInfo option" where
  "find_weather [] day_date = None"
| "find_weather (w # ws) day_date =
     (if JStr (wi_date w) = day_date then Some w else find_weather ws day_date)"

definition weather_for_day :: "runtime \<Rightarrow> WeatherInfo list \<Rightarrow> json \<Rightarrow> error + WeatherInfo" where
  "weather_for_day rt forecast day_date =
     (case find_weather forecast day_date of
        Some w \<Rightarrow> Inr w
      | None \<Rightarrow>
          (case str_validator rt day_date of
             None \<Rightarrow> Inl ValidationError
           | Some d \<Rightarrow>
               Inr \<lparr>wi_date = d, wi_temperature_celsius = ''0'', wi_condition = ''Unknown'',
                    wi_precipitation_chance = ''0'', wi_humidity = ''0''\<rparr>))"

text \<open>Step (ii): the route stops.\<close>

definition default_route :: "RouteStop list" where
  "default_route =
     [\<lparr>rs_latitude = float_literal 48.8566, rs_longitude = float_literal 2.3522,
       rs_stop_name = ''Default Location''\<rparr>]"

definition route_stop :: "runtime \<Rightarrow> json \<Rightarrow> error + RouteStop" where
  "route_stop rt stop =
     and_then (method_get stop ''latitude'' (JFloat (float_literal 48.8566))) (\<lambda>la.
     and_then (py_float rt la) (\<lambda>lat.
     and_then (method_get stop ''longitude'' (JFloat (float_literal 2.3522))) (\<lambda>lo.
     and_then (py_float rt lo) (\<lambda>lon.
     and_then (method_get stop ''stop_name'' (JStr ''Unknown Stop'')) (\<lambda>n.
     Inr \<lparr>rs_latitude = lat, rs_longitude = lon, rs_stop_name = str_of rt n\<rparr>)))))"

definition build_route :: "runtime \<Rightarrow> json \<Rightarrow> error + RouteStop list" where
  "build_route rt route_data =
     (if \<not> truthy route_data then Inr default_route
      else and_then (py_iter route_data) (map_e (route_stop rt)))"

text \<open>Step (iii): activities, meals and transport legs, \<^verbatim>\<open>[Model(**x) for x in xs]\<close>.\<close>

definition build_list ::
  "((string \<times> json) list \<Rightarrow> error + 'a) \<Rightarrow> json \<Rightarrow> error + 'a list" where
  "build_list init xs = and_then (py_iter xs) (map_e (\<lambda>x. and_then (kwargs x) init))"

text \<open>Step (iv): the accommodation, with its \<^verbatim>\<open>try\<close> / \<^verbatim>\<open>except Exception\<close>.\<close>

definition build_accommodation :: "runtime \<Rightarrow> json \<Rightarrow> error + Accommodation" where
  "build_accommodation rt accommodation_data0 =
     (let accommodation_data = (case accommodation_data0 of JObj d \<Rightarrow> d | _ \<Rightarrow> []);
          n = str_of rt (dict_get accommodation_data ''name'' (JStr ''Default Hotel''));
          a = str_of rt (dict_get accommodation_data ''address'' (JStr ''City Center''));
          d = str_of rt (dict_get accommodation_data ''details'' (JStr ''Standard Accommodation''))
      in case Accommodation_init n a d of
           Inr accommodation \<Rightarrow> Inr accommodation
         | Inl e \<Rightarrow> Inr Accommodation_default)"

text \<open>Steps (v) and (vi): the cost breakdown and the weather summary.\<close>

definition build_costs :: "runtime \<Rightarrow> json \<Rightarrow> error + EstimatedCosts" where
  "build_costs rt day_data =
     and_then (method_get day_data ''estimated_costs'' (JObj [])) (\<lambda>c.
     and_then (kwargs c) (EstimatedCosts_init rt))"

definition no_data :: json where
  "no_data = JObj [(''description'', JStr ''No data''), (''recommendations'', JStr ''No data'')]"

definition build_weather_summary :: "runtime \<Rightarrow> json \<Rightarrow> error + WeatherSummary" where
  "build_weather_summary rt day_data =
     and_then (method_get day_data ''weather_summary'' no_data) (\<lambda>s.
     and_then (kwargs s) (WeatherSummary_init rt))"

text \<open>The body of the loop over the days of \<^verbatim>\<open>_parse_itinerary_response\<close>.\<close>

definition build_day :: "runtime \<Rightarrow> WeatherInfo list \<Rightarrow> json \<Rightarrow> error + DailyItinerary" where
  "build_day rt forecast day_data =
     and_then (subscript day_data ''date'') (\<lambda>day_date.
     and_then (weather_for_day rt forecast day_date) (\<lambda>weather_info.
     and_then (method_get day_data ''daily_route'' (JArr [])) (\<lambda>route_data.
     and_then (build_route rt route_data) (\<lambda>route.
     and_then (subscript day_data ''activities'') (\<lambda>acts_data.
     and_then (build_list (Activity_init rt) acts_data) (\<lambda>acts.
     and_then (method_get day_data ''meals'' (JArr [])) (\<lambda>meals_data.
     and_then (build_list (Meal_init rt) meals_data) (\<lambda>ms.
     and_then (method_get day_data ''transport'' (JArr [])) (\<lambda>transport_data.
     and_then (build_list (Transport_init rt) transport_data) (\<lambda>transports.
     and_then (method_get day_data ''accommodation'' (JObj [])) (\<lambda>accommodation_data.
     and_then (build_accommodation rt accommodation_data) (\<lambda>acc.
     and_then (build_costs rt day_data) (\<lambda>costs.
     and_then (build_weather_summary rt day_data) (\<lambda>summary.
     and_then (method_get day_data ''local_events'' (JArr [])) (\<lambda>events_data.
     and_then (build_list (LocalEvent_init rt) events_data) (\<lambda>events.
     case str_validator rt day_date of
       None \<Rightarrow> Inl ValidationError
     | Some d \<Rightarrow>
         Inr \<lparr>di_date = d, di_activities = acts, di_meals = ms, di_transport = transports,
              di_accommodation = acc, di_weather = weather_info, di_estimated_costs = costs,
              di_weather_summary = summary, di_local_events = events,
              di_daily_route = route\<rparr>))))))))))))))))"

section \<open>Itinerary assembler: the whole response\<close>

text \<open>\<^verbatim>\<open>sum(cost for cost in day.estimated_costs.dict().values())\<close>\<close>

definition day_cost :: "runtime \<Rightarrow> DailyItinerary \<Rightarrow> pyfloat" where
  "day_cost rt day =
     (let c = di_estimated_costs day
      in sum_floats rt
           [cost_activities c, cost_meals c, cost_transport c, cost_accommodation c])"

definition fixed_emergency_contacts :: "(string \<times> string) list" where
  "fixed_emergency_contacts =
     [(''police'', ''112''), (''ambulance'', ''112''), (''tourist_helpline'', ''1363'')]"

definition fixed_useful_phrases :: "(string \<times> string) list" where
  "fixed_useful_phrases =
     [(''hello'', ''Hello''), (''thank_you'', ''Thank you''), (''help'', ''Help'')]"

text \<open>
  \<^verbatim>\<open>_parse_itinerary_response\<close> from the validation of the decoded data on.
\<close>

definition assemble_itinerary ::
  "runtime \<Rightarrow> json \<Rightarrow> WeatherInfo list \<Rightarrow> error + ItineraryResponse" where
  "assemble_itinerary rt data forecast =
     and_then (validate_itinerary_data data) (\<lambda>_.
     and_then (subscript data ''daily_itineraries'') (\<lambda>days_data.
     and_then (py_iter days_data) (\<lambda>day_list.
     and_then (map_e (build_day rt forecast) day_list) (\<lambda>days.
     and_then (subscript data ''trip_summary'') (\<lambda>summary_data.
     and_then (kwargs summary_data) (\<lambda>summary_kw.
     and_then (TripSummary_init rt summary_kw) (\<lambda>summary.
     and_then (method_get data ''recommendations'' (JArr [])) (\<lambda>recs_data.
     and_then (list_str_validator rt recs_data) (\<lambda>recs.
     Inr \<lparr>ir_trip_summary = summary,
          daily_itineraries = days,
          total_cost = sum_floats rt (map (day_cost rt) days),
          ir_recommendations = recs,
          ir_weather_forecast = forecast,
          transport_options = [],
          emergency_contacts = fixed_emergency_contacts,
          useful_phrases = fixed_useful_phrases\<rparr>)))))))))"

text \<open>The fields of a list that a dict does not have, for comparison with the validation.\<close>

definition absent :: "string list \<Rightarrow> (string \<times> json) list \<Rightarrow> string list" where
  "absent names d = filter (\<lambda>k. map_of d k = None) names"

text \<open>
  The messages the loop over the days can raise for a list of days: an entry that is no
  dict, or the absent fields of one of its entries.
\<close>

definition day_error :: "json list \<Rightarrow> string \<Rightarrow> bool" where
  "day_error ds m \<longleftrightarrow>
     m = ''Each day in daily_itineraries must be a dictionary'' \<or>
     (\<exists>day'. JObj day' \<in> set ds \<and> absent required_day_fields day' \<noteq> [] \<and>
        m = ''Missing required fields in day data: ''
              @ join '', '' (absent required_day_fields day'))"

text \<open>
  What the specification says of one cost component: 0 when the key is missing, the
  validated value otherwise.
\<close>

definition component_of ::
  "runtime \<Rightarrow> (string \<times> json) list \<Rightarrow> string \<Rightarrow> pyfloat \<Rightarrow> bool" where
  "component_of rt e k x =
     (case map_of e k of None \<Rightarrow> x = Finite 0 | Some v \<Rightarrow> float_validator rt v = Some x)"






text \<open>A weather summary value that lacks a field, or is no dict.\<close>

definition summary_incomplete :: "json \<Rightarrow> bool" where
  "summary_incomplete v =
     (case v of
        JObj s \<Rightarrow> map_of s ''description'' = None \<or> map_of s ''recommendations'' = None
      | _ \<Rightarrow> True)"

text \<open>The sum of the four cost components of an assembled day.\<close>

definition four_components :: "runtime \<Rightarrow> DailyItinerary \<Rightarrow> pyfloat" where
  "four_components rt day =
     sum_floats rt
       [cost_activities (di_estimated_costs day), cost_meals (di_estimated_costs day),
        cost_transport (di_estimated_costs day), cost_accommodation (di_estimated_costs day)]"

definition parse_itinerary_response ::
  "runtime \<Rightarrow> string \<Rightarrow> WeatherResponse \<Rightarrow> error + ItineraryResponse" where
  "parse_itinerary_response rt response_text weather_data =
     and_then (repair_and_load rt response_text) (\<lambda>data.
       assemble_itinerary rt data (wr_weather_forecast weather_data))"

section \<open>A reference decoder for concrete evaluation\<close>

text \<open>
  \<open>ref_json_loads\<close> decodes JSON text as \<^verbatim>\<open>json.loads\<close> does: whitespace, the literals
  null, true, false, NaN, Infinity and -Infinity, numbers (an int without fraction and
  exponent, the nearest double otherwise), strings with their escapes, arrays, and
  objects, where a key given twice keeps its place and takes the later value. A
  \<^verbatim>\<open>\u\<close> escape of a code point above 255 is outside it, as such characters are
  outside \<^typ>\<open>string\<close>. The fuel bounds the nesting and the number of elements; twice
  the number of characters that are no whitespace is enough for every text.
\<close>

definition dquote :: char where
  "dquote = CHR 0x22"

definition backslash :: char where
  "backslash = CHR 0x5C"

definition json_ws :: "char \<Rightarrow> bool" where
  "json_ws c = (c = CHR '' '' \<or> c = CHR 0x09 \<or> c = CHR 0x0A \<or> c = CHR 0x0D)"

definition skip_ws :: "string \<Rightarrow> string" where
  "skip_ws s = dropWhile json_ws s"

definition unescape :: "char \<Rightarrow> char option" where
  "unescape e =
     (if e = dquote then Some dquote
      else if e = backslash then Some backslash
      else if e = CHR ''/'' then Some (CHR ''/'')
      else if e = CHR ''b'' then Some (CHR 0x08)
      else if e = CHR ''f'' then Some (CHR 0x0C)
      else if e = CHR ''n'' then Some (CHR 0x0A)
      else if e = CHR ''r'' then Some (CHR 0x0D)
      else if e = CHR ''t'' then Some (CHR 0x09)
      else None)"

definition hex_val :: "char \<Rightarrow> nat option" where
  "hex_val c =
     (let n = (of_char c :: nat)
      in if 48 \<le> n \<and> n \<le> 57 then Some (n - 48)
         else if 97 \<le> n \<and> n \<le> 102 then Some (n - 87)
         else if 65 \<le> n \<and> n \<le> 70 then Some (n - 55)
         else None)"

text \<open>The four hexadecimal digits behind \<^verbatim>\<open>\u\<close>.\<close>

definition unicode_escape :: "string \<Rightarrow> char option" where
  "unicode_escape hs =
     (case map hex_val hs of
        [Some a, Some b, Some c, Some d] \<Rightarrow>
          if a = 0 \<and> b = 0 then Some (char_of (16 * c + d)) else None
      | _ \<Rightarrow> None)"

text \<open>The rest of a string literal, behind its opening quote.\<close>

fun parse_string :: "string \<Rightarrow> string \<Rightarrow> (string \<times> string) option" where
  "parse_string acc [] = None"
| "parse_string acc (c # cs) =
     (if c = dquote then Some (rev acc, cs)
      else if c = backslash then
        (case cs of
           [] \<Rightarrow> None
         | e # cs' \<Rightarrow>
             if e = CHR ''u'' then
               (case unicode_escape (take 4 cs') of
                  None \<Rightarrow> None
                | Some x \<Rightarrow> parse_string (x # acc) (drop 4 cs'))
             else
               (case unescape e of None \<Rightarrow> None | Some x \<Rightarrow> parse_string (x # acc) cs'))
      else if (of_char c :: nat) < 32 then None
      else parse_string (c # acc) cs)"

text \<open>A number: \<^verbatim>\<open>-?(0|[1-9]\d*)(\.\d+)?([eE][-+]?\d+)?\<close>\<close>

definition parse_exponent :: "string \<Rightarrow> (int \<times> string) option" where
  "parse_exponent s =
     (case s of
        [] \<Rightarrow> None
      | c # cs \<Rightarrow>
          if c = CHR ''e'' \<or> c = CHR ''E'' then
            (let (neg, r) = (case cs of
                               [] \<Rightarrow> (False, cs)
                             | g # r' \<Rightarrow>
                                 if g = CHR ''-'' then (True, r')
                                 else if g = CHR ''+'' then (False, r')
                                 else (False, cs));
                 ds = takeWhile isdigit r
             in if ds = [] then None
                else Some (if neg then - int (digits_val ds) else int (digits_val ds),
                           dropWhile isdigit r))
          else None)"

definition parse_number :: "string \<Rightarrow> (json \<times> string) option" where
  "parse_number s =
     (let (neg, s1) = (case s of
                         [] \<Rightarrow> (False, s)
                       | c # cs \<Rightarrow> if c = CHR ''-'' then (True, cs) else (False, s));
          ip = (case s1 of
                  [] \<Rightarrow> []
                | c # cs \<Rightarrow> if c = CHR ''0'' then [c] else takeWhile isdigit s1);
          s2 = drop (length ip) s1;
          fp = (case s2 of
                  [] \<Rightarrow> []
                | c # cs \<Rightarrow> if c = CHR ''.'' then takeWhile isdigit cs else []);
          s3 = (if fp = [] then s2 else drop (Suc (length fp)) s2);
          ex = parse_exponent s3
      in if ip = [] then None
         else if fp = [] \<and> ex = None
         then Some (JInt (if neg then - int (digits_val ip) else int (digits_val ip)), s3)
         else
           (let m = real (digits_val ip) + real (digits_val fp) / 10 ^ length fp;
                e = (case ex of None \<Rightarrow> 0 | Some (e, s4) \<Rightarrow> e);
                x = m * (if e < 0 then 1 / 10 ^ nat (- e) else 10 ^ nat e);
                r = (case ex of None \<Rightarrow> s3 | Some (e, s4) \<Rightarrow> s4)
            in Some (JFloat (if neg then (if x = 0 then NegZero else round_double (- x))
                             else round_double x), r)))"

text \<open>\<^verbatim>\<open>d[k] = v\<close> on the association list of a dict.\<close>

fun dict_set :: "(string \<times> json) list \<Rightarrow> string \<Rightarrow> json \<Rightarrow> (string \<times> json) list" where
  "dict_set [] k v = [(k, v)]"
| "dict_set ((k', v') # d) k v = (if k' = k then (k, v) # d else (k', v') # dict_set d k v)"

fun parse_value :: "nat \<Rightarrow> string \<Rightarrow> (json \<times> string) option"
  and parse_elements :: "nat \<Rightarrow> json list \<Rightarrow> string \<Rightarrow> (json \<times> string) option"
  and parse_members :: "nat \<Rightarrow> (string \<times> json) list \<Rightarrow> string \<Rightarrow> (json \<times> string) option"
where
  "parse_value 0 s = None"
| "parse_value (Suc n) s =
     (case s of
        [] \<Rightarrow> None
      | c # cs \<Rightarrow>
          if c = dquote then
            (case parse_string [] cs of None \<Rightarrow> None | Some (x, r) \<Rightarrow> Some (JStr x, r))
          else if c = CHR ''['' then
            (case skip_ws cs of
               [] \<Rightarrow> None
             | b # r \<Rightarrow> if b = CHR '']'' then Some (JArr [], r)
                        else parse_elements n [] (b # r))
          else if c = CHR ''{'' then
            (case skip_ws cs of
               [] \<Rightarrow> None
             | b # r \<Rightarrow> if b = CHR ''}'' then Some (JObj [], r)
                        else parse_members n [] (b # r))
          else if prefix ''null'' s then Some (JNull, drop 4 s)
          else if prefix ''true'' s then Some (JBool True, drop 4 s)
          else if prefix ''false'' s then Some (JBool False, drop 5 s)
          else if prefix ''NaN'' s then Some (JFloat NaN, drop 3 s)
          else if prefix ''Infinity'' s then Some (JFloat PosInf, drop 8 s)
          else if prefix ''-Infinity'' s then Some (JFloat NegInf, drop 9 s)
          else parse_number s)"
| "parse_elements 0 acc s = None"
| "parse_elements (Suc n) acc s =
     (case parse_value n s of
        None \<Rightarrow> None
      | Some (v, r) \<Rightarrow>
          (case skip_ws r of
             [] \<Rightarrow> None
           | b # r' \<Rightarrow>
               if b = CHR '','' then parse_elements n (acc @ [v]) (skip_ws r')
               else if b = CHR '']'' then Some (JArr (acc @ [v]), r')
               else None))"
| "parse_members 0 acc s = None"
| "parse_members (Suc n) acc s =
     (case s of
        [] \<Rightarrow> None
      | q # s1 \<Rightarrow>
          if q \<noteq> dquote then None
          else
            (case parse_string [] s1 of
               None \<Rightarrow> None
             | Some (k, r) \<Rightarrow>
                 (case skip_ws r of
                    [] \<Rightarrow> None
                  | c # r1 \<Rightarrow>
                      if c \<noteq> CHR '':'' then None
                      else
                        (case parse_value n (skip_ws r1) of
                           None \<Rightarrow> None
                         | Some (v, r2) \<Rightarrow>
                             (case skip_ws r2 of
                                [] \<Rightarrow> None
                              | b # r3 \<Rightarrow>
                                  if b = CHR '','' then
                                    parse_members n (dict_set acc k v) (skip_ws r3)
                                  else if b = CHR ''}'' then
                                    Some (JObj (dict_set acc k v), r3)
                                  else None)))))"

definition ref_json_loads :: "string \<Rightarrow> json option" where
  "ref_json_loads s =
     (case parse_value (2 * length (filter (\<lambda>c. \<not> isspace c) s) + 2) (skip_ws s) of
        None \<Rightarrow> None
      | Some (v, r) \<Rightarrow> if skip_ws r = [] then Some v else None)"

section \<open>Trip request and preferences\<close>

record TravelInput =
  origin :: string
  ti_destination :: string
  start_date :: string
  return_date :: string

record UserPreferences =
  up_budget :: pyfloat
  up_activities :: "string list"
  meal_preferences :: "string list"
  preferred_places :: "string list"
  transport_preferences :: "string list option"
  accommodation_type :: "string option"

section \<open>Dates\<close>

text \<open>
  \<^verbatim>\<open>datetime.strptime(s, "%Y-%m-%d").date()\<close>. The format is matched as the regular
  expression \<^verbatim>\<open>(\d\d\d\d)-(1[0-2]|0[1-9]|[1-9])-(3[0-1]|[1-2]\d|0[1-9]|[1-9]| [1-9])\<close>, the
  whole text must be consumed, and the date must exist.
\<close>

definition digit_in :: "char \<Rightarrow> nat \<Rightarrow> nat \<Rightarrow> bool" where
  "digit_in c lo hi = (isdigit c \<and> lo \<le> digit_val c \<and> digit_val c \<le> hi)"

definition match_month :: "string \<Rightarrow> (nat \<times> string) option" where
  "match_month s =
     (case s of
        [] \<Rightarrow> None
      | a # r \<Rightarrow>
          (case r of
             [] \<Rightarrow> if digit_in a 1 9 then Some (digit_val a, r) else None
           | b # r' \<Rightarrow>
               if a = CHR ''1'' \<and> digit_in b 0 2 then Some (10 + digit_val b, r')
               else if a = CHR ''0'' \<and> digit_in b 1 9 then Some (digit_val b, r')
               else if digit_in a 1 9 then Some (digit_val a, r)
               else None))"

definition match_day :: "string \<Rightarrow> (nat \<times> string) option" where
  "match_day s =
     (case s of
        [] \<Rightarrow> None
      | a # r \<Rightarrow>
          (case r of
             [] \<Rightarrow> if digit_in a 1 9 then Some (digit_val a, r) else None
           | b # r' \<Rightarrow>
               if a = CHR ''3'' \<and> digit_in b 0 1 then Some (30 + digit_val b, r')
               else if digit_in a 1 2 \<and> isdigit b then Some (10 * digit_val a + digit_val b, r')
               else if a = CHR ''0'' \<and> digit_in b 1 9 then Some (digit_val b, r')
               else if digit_in a 1 9 then Some (digit_val a, r)
               else if a = CHR '' '' \<and> digit_in b 1 9 then Some (digit_val b, r')
               else None))"

definition is_leap :: "nat \<Rightarrow> bool" where
  "is_leap y = (y mod 4 = 0 \<and> (y mod 100 \<noteq> 0 \<or> y mod 400 = 0))"

definition days_in_month :: "nat \<Rightarrow> nat \<Rightarrow> nat" where
  "days_in_month y m =
     (if m = 2 then (if is_leap y then 29 else 28)
      else if m = 4 \<or> m = 6 \<or> m = 9 \<or> m = 11 then 30 else 31)"

definition strptime_date :: "string \<Rightarrow> error + (nat \<times> nat \<times> nat)" where
  "strptime_date s =
     (let ys = take 4 s; r = drop 4 s
      in if length ys = 4 \<and> list_all isdigit ys then
           (case r of
              [] \<Rightarrow> Inl DateValueError
            | h # r1 \<Rightarrow>
                if h \<noteq> CHR ''-'' then Inl DateValueError
                else
                  (case match_month r1 of
                     None \<Rightarrow> Inl DateValueError
                   | Some (m, r2) \<Rightarrow>
                       (case r2 of
                          [] \<Rightarrow> Inl DateValueError
                        | h2 # r3 \<Rightarrow>
                            if h2 \<noteq> CHR ''-'' then Inl DateValueError
                            else
                              (case match_day r3 of
                                 None \<Rightarrow> Inl DateValueError
                               | Some (d, r4) \<Rightarrow>
                                   if r4 \<noteq> [] then Inl DateValueError
                                   else if digits_val ys < 1
                                           \<or> days_in_month (digits_val ys) m < d
                                   then Inl DateValueError
                                   else Inr (digits_val ys, m, d)))))
         else Inl DateValueError)"

text \<open>The ordinal of a date, day 1 being 0001-01-01; the difference of two dates in days.\<close>

definition days_before_year :: "nat \<Rightarrow> int" where
  "days_before_year y =
     (int y - 1) * 365 + (int y - 1) div 4 - (int y - 1) div 100 + (int y - 1) div 400"

definition days_before_month :: "nat \<Rightarrow> nat \<Rightarrow> int" where
  "days_before_month y m = int (sum_list (map (days_in_month y) [1..<m]))"

definition ymd2ord :: "nat \<times> nat \<times> nat \<Rightarrow> int" where
  "ymd2ord date =
     (case date of (y, m, d) \<Rightarrow> days_before_year y + days_before_month y m + int d)"

definition date_diff_days :: "nat \<times> nat \<times> nat \<Rightarrow> nat \<times> nat \<times> nat \<Rightarrow> int" where
  "date_diff_days end_date start = ymd2ord end_date - ymd2ord start"

section \<open>JSON text\<close>

text \<open>
  \<^verbatim>\<open>json.dumps\<close> of a string (with \<^verbatim>\<open>ensure_ascii\<close>), and of a list of dicts with
  \<^verbatim>\<open>indent=2\<close>, the values of each dict being given as JSON text already.
\<close>

definition json_escape_char :: "char \<Rightarrow> string" where
  "json_escape_char c =
     (if c = dquote then [backslash, dquote]
      else if c = backslash then [backslash, backslash]
      else if c = CHR 0x0A then [backslash, CHR ''n'']
      else if c = CHR 0x0D then [backslash, CHR ''r'']
      else if c = CHR 0x09 then [backslash, CHR ''t'']
      else if c = CHR 0x08 then [backslash, CHR ''b'']
      else if c = CHR 0x0C then [backslash, CHR ''f'']
      else if printable c then [c]
      else [backslash, CHR ''u'', CHR ''0'', CHR ''0'',
            digit_char (of_char c div 16), digit_char (of_char c mod 16)])"

definition dumps_str :: "string \<Rightarrow> string" where
  "dumps_str s = dquote # concat (map json_escape_char s) @ [dquote]"

definition dumps_dict :: "(string \<times> string) list \<Rightarrow> string" where
  "dumps_dict items =
     ''  {\<newline>''
     @ join '',\<newline>'' (map (\<lambda>(k, v). ''    '' @ dumps_str k @ '': '' @ v) items)
     @ ''\<newline>  }''"

definition dumps_list :: "(string \<times> string) list list \<Rightarrow> string" where
  "dumps_list xs =
     (if xs = [] then ''[]''
      else ''[\<newline>'' @ join '',\<newline>'' (map dumps_dict xs) @ ''\<newline>]'')"

section \<open>Prompt composer\<close>

text \<open>\<^verbatim>\<open>_generate_weather_based_suggestions\<close>\<close>

definition weather_activities :: "(string \<times> string list) list" where
  "weather_activities =
     [(''sunny'',
        [''Schedule outdoor activities early morning or late afternoon'',
         ''Include water-based activities'',
         ''Plan for shade breaks'',
         ''Consider indoor alternatives during peak heat'']),
      (''rainy'',
        [''Prioritize indoor cultural activities'',
         ''Have backup indoor plans for outdoor activities'',
         ''Include covered transport options'',
         ''Schedule flexible activities that can be moved'']),
      (''cloudy'',
        [''Ideal for outdoor sightseeing'',
         ''Good for photography tours'',
         ''Plan mix of indoor and outdoor activities'',
         ''Include weather-independent activities'']),
      (''clear'',
        [''Perfect for outdoor adventures'',
         ''Schedule sunset viewing opportunities'',
         ''Plan outdoor dining experiences'',
         ''Include nature-based activities''])]"

text \<open>The inner loop over the table, with its \<^verbatim>\<open>break\<close>.\<close>

fun suggestions_for :: "string \<Rightarrow> (string \<times> string list) list \<Rightarrow> string list" where
  "suggestions_for cond [] = []"
| "suggestions_for cond ((weather_type, acts) # rest) =
     (if str_in weather_type cond then acts else suggestions_for cond rest)"

definition collect_suggestions :: "string list \<Rightarrow> string list" where
  "collect_suggestions weather_conditions =
     concat (map (\<lambda>cond. suggestions_for cond weather_activities) weather_conditions)"

definition generate_weather_based_suggestions :: "runtime \<Rightarrow> string list \<Rightarrow> string" where
  "generate_weather_based_suggestions rt weather_conditions =
     join ''\<newline>''
       (map (\<lambda>suggestion. ''- '' @ suggestion)
            (set_order rt (collect_suggestions weather_conditions)))"

text \<open>The pieces of the prompt.\<close>

definition header :: "TravelInput \<Rightarrow> string list \<Rightarrow> string" where
  "header travel_input weather_conditions =
     ''As a travel itinerary expert, create a detailed day-by-day travel plan for a trip from ''
     @ origin travel_input @ '' to '' @ ti_destination travel_input
     @ '' from '' @ start_date travel_input @ '' to '' @ return_date travel_input
     @ ''.\<newline>''
     @ ''\<newline>''
     @ ''The destination '' @ ti_destination travel_input @ '' typically experiences ''
     @ join '', '' weather_conditions
     @ '' during this period. Plan activities accordingly and include indoor alternatives where appropriate.\<newline>''
     @ ''\<newline>''"

definition budget_lines :: "runtime \<Rightarrow> pyfloat \<Rightarrow> pyfloat \<Rightarrow> string" where
  "budget_lines rt daily_budget total_budget =
     ''- Daily Budget: $'' @ format_2f daily_budget
     @ '' (Total: $'' @ repr_float rt total_budget @ '')\<newline>''
     @ ''  * Suggested split: \<newline>''
     @ ''    - Activities: 40% ($'' @ format_2f (float_mul daily_budget (float_literal 0.4)) @ '')\<newline>''
     @ ''    - Meals: 30% ($'' @ format_2f (float_mul daily_budget (float_literal 0.3)) @ '')\<newline>''
     @ ''    - Transport: 20% ($'' @ format_2f (float_mul daily_budget (float_literal 0.2)) @ '')\<newline>''
     @ ''    - Contingency: 10% ($'' @ format_2f (float_mul daily_budget (float_literal 0.1)) @ '')\<newline>''"

definition preferences ::
  "runtime \<Rightarrow> UserPreferences \<Rightarrow> pyfloat \<Rightarrow> string \<Rightarrow> string" where
  "preferences rt user_preferences daily_budget activity_suggestions =
     (let transport_prefs =
            (case transport_preferences user_preferences of
               None \<Rightarrow> ''Any''
             | Some ps \<Rightarrow> if ps = [] then ''Any'' else join '', '' ps);
          accommodation =
            (case accommodation_type user_preferences of
               None \<Rightarrow> ''Any''
             | Some a \<Rightarrow> if a = [] then ''Any'' else a)
      in ''User Preferences:\<newline>''
         @ budget_lines rt daily_budget (up_budget user_preferences)
         @ ''- Preferred Activities: '' @ join '', '' (up_activities user_preferences)
         @ ''\<newline>''
         @ ''- Meal Preferences: '' @ join '', '' (meal_preferences user_preferences)
         @ ''\<newline>''
         @ ''- Must-Visit Places: '' @ join '', '' (preferred_places user_preferences)
         @ ''\<newline>''
         @ ''- Transport Preferences: '' @ transport_prefs @ ''\<newline>''
         @ ''- Accommodation Type: '' @ accommodation @ ''\<newline>''
         @ ''\<newline>''
         @ ''Weather-Based Activity Suggestions:\<newline>''
         @ activity_suggestions @ ''\<newline>''
         @ ''\<newline>'')"

definition weather_item :: "WeatherInfo \<Rightarrow> (string \<times> string) list" where
  "weather_item day =
     [(''date'', dumps_str (wi_date day)),
      (''temperature'', dumps_str (wi_temperature_celsius day)),
      (''condition'', dumps_str (wi_condition day)),
      (''precipitation_chance'', dumps_str (wi_precipitation_chance day)),
      (''humidity'', dumps_str (wi_humidity day))]"

definition event_item :: "runtime \<Rightarrow> LocalEvent \<times> real \<Rightarrow> (string \<times> string) list" where
  "event_item rt scored =
     (case scored of (event, relevance_score) \<Rightarrow>
        [(''name'', dumps_str (ev_name event)),
         (''date'', dumps_str (ev_date event)),
         (''venue'', dumps_str (ev_venue event)),
         (''category'', dumps_str (ev_category event)),
         (''price_range'', dumps_str (ev_price_range event)),
         (''relevance'', repr_float rt (Finite relevance_score))])"

definition data_section ::
  "runtime \<Rightarrow> WeatherInfo list \<Rightarrow> (LocalEvent \<times> real) list \<Rightarrow> string" where
  "data_section rt forecast events_info =
     ''Daily Weather Forecast:\<newline>''
     @ dumps_list (map weather_item forecast)
     @ ''\<newline>''
     @ ''\<newline>''
     @ ''Local Events (Sorted by Relevance to User Preferences):\<newline>''
     @ dumps_list (map (event_item rt) (take 5 events_info))
     @ ''  # Show top 5 most relevant events\<newline>''
     @ ''\<newline>''
     @ ''Event Integration Guidelines:\<newline>''
     @ ''- Prioritize events with relevance score > 1.5\<newline>''
     @ ''- Consider weather conditions when scheduling outdoor events\<newline>''
     @ ''- Ensure event timing aligns with daily schedule\<newline>''
     @ ''- Account for transport time to/from events\<newline>''
     @ ''\<newline>''"

definition instructions :: string where
  "instructions =
     ''Please create a detailed itinerary that includes:\<newline>''
     @ ''1. Trip Summary:\<newline>''
     @ ''   - Overview of the complete journey\<newline>''
     @ ''   - Daily highlights and main attractions\<newline>''
     @ ''   - Budget allocation strategy\<newline>''
     @ ''   - Weather contingency plans\<newline>''
     @ ''\<newline>''
     @ ''2. Daily Itineraries:\<newline>''
     @ ''   - Weather-appropriate activities\<newline>''
     @ ''   - Meal recommendations matching preferences\<newline>''
     @ ''   - Transport logistics between locations\<newline>''
     @ ''   - Accommodation details with area benefits\<newline>''
     @ ''   - Backup plans for weather-sensitive activities\<newline>''
     @ ''   - Weather summary for the day\<newline>''
     @ ''   - Local events happening that day\<newline>''
     @ ''   - Daily route with coordinates\<newline>''
     @ ''\<newline>''
     @ ''3. Practical Considerations:\<newline>''
     @ ''   - Indoor alternatives for bad weather\<newline>''
     @ ''   - Rest periods between activities\<newline>''
     @ ''   - Transport connection times\<newline>''
     @ ''   - Meal timing with activities\<newline>''
     @ ''   - Local customs and etiquette\<newline>''
     @ ''\<newline>''
     @ ''4. Cost Management:\<newline>''
     @ ''   - Activity costs with alternatives\<newline>''
     @ ''   - Transport fare estimates\<newline>''
     @ ''   - Meal budget options\<newline>''
     @ ''   - Accommodation rates\<newline>''
     @ ''   - Emergency fund allocation\<newline>''
     @ ''\<newline>''"

definition response_format :: string where
  "response_format =
     ''{\<newline>''
     @ ''    \"trip_summary\": {\<newline>''
     @ ''        \"trip_dates\": \"string\",\<newline>''
     @ ''        \"destination\": \"string\",\<newline>''
     @ ''        \"budget\": \"string\",\<newline>''
     @ ''        \"preferences\": \"string\",\<newline>''
     @ ''        \"must_visit_places\": \"string\",\<newline>''
     @ ''        \"trip_goal\": \"string\"\<newline>''
     @ ''    },\<newline>''
     @ ''    \"daily_itineraries\": [\<newline>''
     @ ''        {\<newline>''
     @ ''            \"date\": \"YYYY-MM-DD\",\<newline>''
     @ ''            \"activities\": [\<newline>''
     @ ''                {\"time\": \"HH:MM\", \"description\": \"activity description\"}\<newline>''
     @ ''            ],\<newline>''
     @ ''            \"meals\": [\<newline>''
     @ ''                {\"type\": \"breakfast/lunch/dinner\", \"suggestion\": \"restaurant or meal suggestion\"}\<newline>''
     @ ''            ],\<newline>''
     @ ''            \"transport\": [\<newline>''
     @ ''                {\"time\": \"HH:MM\", \"description\": \"transport details\"}\<newline>''
     @ ''            ],\<newline>''
     @ ''            \"accommodation\": {\<newline>''
     @ ''                \"name\": \"hotel/guest house name\",\<newline>''
     @ ''                \"address\": \"area or full address\",\<newline>''
     @ ''                \"details\": \"additional details\"\<newline>''
     @ ''            },\<newline>''
     @ ''            \"weather\": {\<newline>''
     @ ''                \"temperature_celsius\": \"string\",\<newline>''
     @ ''                \"condition\": \"string\",\<newline>''
     @ ''                \"precipitation_chance\": \"string\",\<newline>''
     @ ''                \"humidity\": \"string\"\<newline>''
     @ ''            },\<newline>''
     @ ''            \"weather_summary\": {\<newline>''
     @ ''                \"description\": \"string\",\<newline>''
     @ ''                \"recommendations\": \"string\"\<newline>''
     @ ''            },\<newline>''
     @ ''            \"local_events\": [\<newline>''
     @ ''                {\"name\": \"string\", \"time\": \"string\", \"location\": \"string\"}\<newline>''
     @ ''            ],\<newline>''
     @ ''            \"daily_route\": [\<newline>''
     @ ''                {\<newline>''
     @ ''                    \"latitude\": 48.8566,\<newline>''
     @ ''                    \"longitude\": 2.3522,\<newline>''
     @ ''                    \"stop_name\": \"Location Name\"\<newline>''
     @ ''                }\<newline>''
     @ ''            ],\<newline>''
     @ ''            \"estimated_costs\": {\<newline>''
     @ ''                \"activities\": float,\<newline>''
     @ ''                \"meals\": float,\<newline>''
     @ ''                \"transport\": float,\<newline>''
     @ ''                \"accommodation\": float\<newline>''
     @ ''            }\<newline>''
     @ ''        }\<newline>''
     @ ''    ],\<newline>''
     @ ''    \"total_cost\": float,\<newline>''
     @ ''    \"recommendations\": [\"recommendation1\", \"recommendation2\"],\<newline>''
     @ ''    \"weather_forecast\": [\<newline>''
     @ ''        {\<newline>''
     @ ''            \"date\": \"YYYY-MM-DD\",\<newline>''
     @ ''            \"temperature_celsius\": \"string\",\<newline>''
     @ ''            \"condition\": \"string\",\<newline>''
     @ ''            \"precipitation_chance\": \"string\",\<newline>''
     @ ''            \"humidity\": \"string\"\<newline>''
     @ ''        }\<newline>''
     @ ''    ]\<newline>''
     @ ''}''"

text \<open>
  \<^verbatim>\<open>_create_itinerary_prompt\<close>. The events are scored in their order, which raises at the
  first event whose score raises; \<^verbatim>\<open>sort(key=..., reverse=True)\<close> is stable, as
  \<^const>\<open>sort_key\<close> on the negated key is.
\<close>

definition score_event ::
  "runtime \<Rightarrow> string list \<Rightarrow> WeatherInfo list \<Rightarrow> LocalEvent \<Rightarrow> error + (LocalEvent \<times> real)" where
  "score_event rt interests forecast event =
     (case calculate_event_relevance rt event interests forecast of
        Inl e \<Rightarrow> Inl e
      | Inr relevance_score \<Rightarrow> Inr (event, relevance_score))"

definition create_itinerary_prompt ::
  "runtime \<Rightarrow> TravelInput \<Rightarrow> UserPreferences \<Rightarrow> WeatherResponse \<Rightarrow> error + string" where
  "create_itinerary_prompt rt travel_input user_preferences weather_data =
     (let forecast = wr_weather_forecast weather_data;
          weather_conditions = set_order rt (map (\<lambda>day. lower (wi_condition day)) forecast);
          activity_suggestions = generate_weather_based_suggestions rt weather_conditions
      in and_then (map_e (score_event rt (up_activities user_preferences) forecast)
                     (wr_local_events weather_data)) (\<lambda>scored.
         let events_info = sort_key (\<lambda>x. - snd x) scored
         in and_then (strptime_date (start_date travel_input)) (\<lambda>start.
            and_then (strptime_date (return_date travel_input)) (\<lambda>end_date.
            let days = date_diff_days end_date start + 1
            in case float_of_int days of
                 None \<Rightarrow> Inl OverflowError
               | Some float_days \<Rightarrow>
                   (case float_div (up_budget user_preferences) float_days of
                      None \<Rightarrow> Inl ZeroDivisionError
                    | Some daily_budget \<Rightarrow>
                        Inr (header travel_input weather_conditions
                             @ preferences rt user_preferences daily_budget activity_suggestions
                             @ data_section rt forecast events_info
                             @ instructions
                             @ ''Format the response as a JSON object with this structure:\<newline>''
                             @ response_format))))))"

text \<open>
  The lower-cased condition labels in the order they are added to the set, and what the
  specification asks of an iteration order: each element once.
\<close>

definition condition_labels :: "WeatherResponse \<Rightarrow> string list" where
  "condition_labels weather_data =
     map (\<lambda>day. lower (wi_condition day)) (wr_weather_forecast weather_data)"

definition valid_order :: "runtime \<Rightarrow> bool" where
  "valid_order rt \<longleftrightarrow> (\<forall>xs. distinct (set_order rt xs) \<and> set (set_order rt xs) = set xs)"

text \<open>The budget lines that the specification expects for 2000 over five days.\<close>

definition expected_budget_lines :: "string \<Rightarrow> string" where
  "expected_budget_lines total_text =
     ''- Daily Budget: $400.00 (Total: $'' @ total_text @ '')\<newline>''
     @ ''  * Suggested split: \<newline>''
     @ ''    - Activities: 40% ($160.00)\<newline>''
     @ ''    - Meals: 30% ($120.00)\<newline>''
     @ ''    - Transport: 20% ($80.00)\<newline>''
     @ ''    - Contingency: 10% ($40.00)\<newline>''"

text \<open>
  The reference instance: \<open>ref_repr_float\<close> is \<^verbatim>\<open>repr\<close> on the multiples of 1/2 below
  10^16 and is left open elsewhere; sets are iterated in the order of insertion.
\<close>

definition ref_repr_float :: "pyfloat \<Rightarrow> string" where
  "ref_repr_float a =
     (case a of
        Finite x \<Rightarrow>
          (let n = \<lfloor>\<bar>x\<bar> * 2\<rfloor>
           in if of_int \<lfloor>x * 2\<rfloor> = x * 2 \<and> \<bar>x\<bar> < 10 ^ 16
              then (if x < 0 then ''-'' else []) @ show_nat (n div 2)
                   @ (if even n then ''.0'' else ''.5'')
              else undefined)
      | NegZero \<Rightarrow> ''-0.0''
      | PosInf \<Rightarrow> ''inf''
      | NegInf \<Rightarrow> ''-inf''
      | NaN \<Rightarrow> ''nan'')"

definition insertion_order :: "string list \<Rightarrow> string list" where
  "insertion_order xs = rev (remdups (rev xs))"

definition ref_runtime :: runtime where
  "ref_runtime =
     \<lparr> float_of_str = dec_float,
       str_of = ref_str,
       str_validator = ref_str_validator,
       float_validator = ref_float_validator,
       json_loads = ref_json_loads,
       repr_float = ref_repr_float,
       sum_floats = ref_sum,
       set_order = insertion_order \<rparr>"

text \<open>The same interpreter with another hash seed: sets are iterated the other way round.\<close>

definition other_seed_runtime :: runtime where
  "other_seed_runtime = ref_runtime \<lparr> set_order := (\<lambda>xs. rev (insertion_order xs)) \<rparr>"

section \<open>Example inputs\<close>

definition ex_event :: LocalEvent where
  "ex_event = \<lparr>ev_name = ''Jazz Night'', ev_date = ''2025-02-01'', ev_venue = ''Park'',
     ev_category = ''Music Festival'', ev_description = ''Big Outdoor show'', ev_price_range = ''''\<rparr>"

definition indoor_event :: LocalEvent where
  "indoor_event = \<lparr>ev_name = ''Gallery Tour'', ev_date = ''2025-02-01'', ev_venue = ''Museum'',
     ev_category = ''Art'', ev_description = ''Guided indoor tour'', ev_price_range = ''''\<rparr>"

definition ex_day :: "string \<Rightarrow> string \<Rightarrow> string \<Rightarrow> WeatherInfo" where
  "ex_day d c p = \<lparr>wi_date = d, wi_temperature_celsius = ''10'', wi_condition = c,
     wi_precipitation_chance = p, wi_humidity = ''5''\<rparr>"

definition ex_summary :: json where
  "ex_summary =
     JObj [(''trip_dates'', JStr ''2025-02-01 to 2025-02-05''), (''destination'', JStr ''Paris''),
           (''budget'', JStr ''2000''), (''preferences'', JStr ''museums''),
           (''must_visit_places'', JStr ''Louvre''), (''trip_goal'', JStr ''leisure'')]"

definition ex_day_fields :: "string \<Rightarrow> (string \<times> json) list" where
  "ex_day_fields d =
     [(''date'', JStr d),
      (''activities'', JArr [JObj [(''time'', JStr ''09:00''), (''description'', JStr ''Louvre'')]]),
      (''meals'', JArr [JObj [(''type'', JStr ''lunch''), (''suggestion'', JStr ''Bistro'')]]),
      (''transport'', JArr []),
      (''accommodation'', JObj [(''name'', JStr ''Hotel Lutetia'')])]"

definition ex_top :: "json list \<Rightarrow> (string \<times> json) list" where
  "ex_top days =
     [(''trip_summary'', ex_summary), (''daily_itineraries'', JArr days),
      (''recommendations'', JArr [JStr ''Book early'']), (''total_cost'', JInt 999999)]"

definition ex_days :: "json list" where
  "ex_days =
     [JObj (ex_day_fields ''2025-02-01''
            @ [(''estimated_costs'', JObj [(''activities'', JInt 100), (''meals'', JFloat (Finite 50.5))])]),
      JObj (ex_day_fields ''2025-02-02'')]"




text \<open>The text \<^verbatim>\<open>{"a": "x,}"}\<close>, and \<^verbatim>\<open>{"a": [1, 2]}\<close> between blanks and a newline.\<close>

definition comma_in_string_text :: string where
  "comma_in_string_text =
     [CHR ''{'', dquote, CHR ''a'', dquote, CHR '':'', CHR '' '', dquote]
     @ ''x,}'' @ [dquote, CHR ''}'']"

definition padded_text :: string where
  "padded_text =
     ''  {'' @ [dquote, CHR ''a'', dquote] @ '': [1, 2]} '' @ [CHR 0x0A]"

definition ex_trip :: TravelInput where
  "ex_trip =
     \<lparr>origin = ''New York'', ti_destination = ''Paris'',
      start_date = ''2025-02-01'', return_date = ''2025-02-05''\<rparr>"

definition ex_prefs :: UserPreferences where
  "ex_prefs =
     \<lparr>up_budget = Finite 2000, up_activities = [''sightseeing'', ''museums'', ''food''],
      meal_preferences = [''local cuisine''], preferred_places = [''Eiffel Tower'', ''Louvre''],
      transport_preferences = Some [''metro'', ''walk''], accommodation_type = Some ''hotel''\<rparr>"

definition ex_weather :: WeatherResponse where
  "ex_weather =
     \<lparr>wr_weather_forecast =
        [ex_day ''2025-02-01'' ''Sunny'' ''10'', ex_day ''2025-02-02'' ''Light rain'' ''80''],
      wr_local_events = [indoor_event, ex_event]\<rparr>"

definition foggy_weather :: WeatherResponse where
  "foggy_weather =
     \<lparr>wr_weather_forecast =
        [ex_day ''2025-02-01'' ''Fog'' ''10'', ex_day ''2025-02-02'' ''FOG'' ''20''],
      wr_local_events = [indoor_event]\<rparr>"

section \<open>Floating-point numbers: results\<close>

lemma bit_length_nonneg: "0 \<le> bit_length n"
proof (induction n rule: bit_length.induct)
  case (1 n)
  then show ?case by (subst bit_length.simps) simp
qed

lemma bit_length_pos: "0 < n \<Longrightarrow> 1 \<le> bit_length n"
  using bit_length_nonneg [of "n div 2"] by (subst bit_length.simps) simp

lemma bit_length_bound: "n < 2 ^ k \<Longrightarrow> bit_length n \<le> int k"
proof (induction n arbitrary: k rule: bit_length.induct)
  case (1 n)
  show ?case
  proof (cases "n \<le> 0")
    case True
    then show ?thesis by (subst bit_length.simps) simp
  next
    case False
    with 1(2) obtain j where j: "k = Suc j" by (cases k) auto
    with 1(2) have "n div 2 < 2 ^ j" by auto
    with 1(1) False have "bit_length (n div 2) \<le> int j" by simp
    with False j show ?thesis by (subst bit_length.simps) simp
  qed
qed

lemma round_half_even_of_int: "round_half_even (of_int k) = k"
  by (simp add: round_half_even_def)

lemma round_double_pos_int:
  assumes "0 < n" "n < 2 ^ 53"
  shows "round_double (of_int n) = Finite (of_int n)"
proof -
  define e where "e = bit_length n - 1"
  have e0: "0 \<le> e" using bit_length_pos [OF assms(1)] by (simp add: e_def)
  have e52: "e \<le> 52" using bit_length_bound [OF assms(2)] by (simp add: e_def)
  define j where "j = nat (52 - e)"
  have b: "binade \<bar>of_int n\<bar> = e"
    using assms(1) by (simp add: binade_def e_def)
  have m: "max e (- 1022) = e" using e0 by simp
  have u: "pow2 (e - 52) = 1 / 2 ^ j"
    using e52 by (auto simp: pow2_def j_def)
  have q: "\<bar>real_of_int n\<bar> / (1 / 2 ^ j) = of_int (n * 2 ^ j)"
    using assms(1) by simp
  have r: "real_of_int (round_half_even (\<bar>real_of_int n\<bar> / (1 / 2 ^ j))) * (1 / 2 ^ j) = of_int n"
    by (simp only: q round_half_even_of_int) simp
  have "real_of_int n < 2 ^ 53" using assms(2)
    by (metis of_int_less_numeral_power_cancel_iff)
  also have "\<dots> \<le> (2::real) ^ 1024" by (rule power_increasing) simp_all
  finally have lt: "\<not> pow2 1024 \<le> real_of_int n" by (simp add: pow2_def)
  from assms(1) have ne: "real_of_int n \<noteq> 0" "\<not> real_of_int n < 0" by simp_all
  show ?thesis
    unfolding round_double_def Let_def b m u r
    using lt ne by simp
qed

lemma round_double_of_int:
  assumes "\<bar>n\<bar> < 2 ^ 53"
  shows "round_double (of_int n) = Finite (of_int n)"
proof -
  consider "n = 0" | "0 < n" | "n < 0" by linarith
  then show ?thesis
  proof cases
    case 1
    then show ?thesis by (simp add: round_double_def)
  next
    case 2
    with assms show ?thesis by (intro round_double_pos_int) simp_all
  next
    case 3
    with assms have p: "round_double (of_int (- n)) = Finite (of_int (- n))"
      by (intro round_double_pos_int) simp_all
    from 3 have nz: "real_of_int n \<noteq> 0" "real_of_int n < 0" by simp_all
    from p 3 show ?thesis
      unfolding round_double_def Let_def
      by (simp add: nz split: if_splits)
  qed
qed

lemma float_of_int_small: "\<bar>n\<bar> < 2 ^ 53 \<Longrightarrow> float_of_int n = Some (Finite (of_int n))"
  by (simp add: float_of_int_def round_double_of_int)
lemma round_double_code [code]:
  "round_double x =
     (if of_int \<lfloor>x\<rfloor> = x \<and> \<bar>x\<bar> < 9007199254740992 then Finite x
      else if x = 0 then Finite 0
      else
        (let e = max (binade \<bar>x\<bar>) (- 1022);
             ulp = pow2 (e - 52);
             r = of_int (round_half_even (\<bar>x\<bar> / ulp)) * ulp
         in if pow2 1024 \<le> r then (if x < 0 then NegInf else PosInf)
            else if r = 0 then (if x < 0 then NegZero else Finite 0)
            else Finite (if x < 0 then - r else r)))"
proof (cases "of_int \<lfloor>x\<rfloor> = x \<and> \<bar>x\<bar> < 9007199254740992")
  case True
  then have fx: "real_of_int \<lfloor>x\<rfloor> = x" and bx: "\<bar>x\<bar> < 9007199254740992"
    by blast+
  from bx have "\<bar>real_of_int \<lfloor>x\<rfloor>\<bar> < 9007199254740992"
    by (simp only: fx)
  then have "real_of_int \<bar>\<lfloor>x\<rfloor>\<bar> < real_of_int 9007199254740992"
    by simp
  then have "\<bar>\<lfloor>x\<rfloor>\<bar> < 9007199254740992"
    by (simp only: of_int_less_iff)
  then have "\<bar>\<lfloor>x\<rfloor>\<bar> < 2 ^ 53"
    by simp
  then have "round_double (of_int \<lfloor>x\<rfloor>) = Finite (of_int \<lfloor>x\<rfloor>)"
    by (rule round_double_of_int)
  then have "round_double x = Finite x" by (simp only: fx)
  with True show ?thesis by (simp only: if_True simp_thms)
next
  case False
  then show ?thesis by (simp only: round_double_def if_False)
qed

lemma pow2_code [code]:
  "pow2 k =
     (if k = 0 then 1
      else if k < 0 then 1 / pow2 (- k)
      else if even k then (let h = pow2 (k div 2) in h * h)
      else 2 * pow2 (k - 1))"
proof -
  have ev: "(2::real) ^ nat k = 2 ^ nat (k div 2) * 2 ^ nat (k div 2)" if "0 < k" "even k"
  proof -
    from that(2) obtain j where j: "k = 2 * j" by (elim evenE)
    with that(1) have "nat k = nat (k div 2) + nat (k div 2)" by simp
    then show ?thesis by (simp only: power_add)
  qed
  have od: "(2::real) ^ nat k = 2 * 2 ^ nat (k - 1)" if "0 < k" "odd k"
  proof -
    from that(1) have "nat k = Suc (nat (k - 1))" by simp
    then show ?thesis by (simp only: power_Suc)
  qed
  show ?thesis
    using ev od by (auto simp: pow2_def Let_def)
qed

section \<open>Relevance scorer: results\<close>

lemma activity_loop_count:
  "activity_loop cat acts s =
     s + real (length (filter (\<lambda>i. str_in (lower i) (lower cat)) acts))"
  by (induction acts arbitrary: s) auto

lemma activity_loop_matches:
  "activity_loop (ev_category event) acts s = s + real (interest_matches event acts)"
  unfolding interest_matches_def activity_loop_count
  by (metis mset_filter size_mset)

lemma weather_loop_find:
  "weather_loop rt event fc s =
    (case matching_day event fc of
       None \<Rightarrow> Inr s
     | Some w \<Rightarrow>
         if is_outdoor event then
           (case float_of_str rt (wi_precipitation_chance w) of
                 None \<Rightarrow> Inl FloatValueError
               | Some p \<Rightarrow> Inr (s - (if is_rainy w then 1 / 2 else 0)
                                  - (if p > 50 then 1 / 2 else 0)))
         else Inr s)"
  by (induction fc)
     (auto simp: matching_day_def is_outdoor_def is_rainy_def Let_def split: option.splits)

lemma relevance_closed_form:
  "calculate_event_relevance rt event interests forecast =
     (case matching_day event forecast of
        None \<Rightarrow> Inr (1 + real (interest_matches event interests))
      | Some w \<Rightarrow>
          if is_outdoor event then
            (case float_of_str rt (wi_precipitation_chance w) of
               None \<Rightarrow> Inl FloatValueError
             | Some p \<Rightarrow>
                 Inr (1 + real (interest_matches event interests)
                        - (if is_rainy w then 1 / 2 else 0)
                        - (if p > 50 then 1 / 2 else 0)))
          else Inr (1 + real (interest_matches event interests)))"
  by (simp add: calculate_event_relevance_def weather_loop_find activity_loop_matches)

lemma relevance_nonneg:
  "calculate_event_relevance rt event interests forecast = Inr s \<Longrightarrow> 0 \<le> s"
  by (auto simp: relevance_closed_form split: option.splits if_splits)

lemma matching_day_distinct:
  "distinct (map wi_date forecast) \<Longrightarrow> w \<in> set forecast \<Longrightarrow> wi_date w = ev_date event
     \<Longrightarrow> matching_day event forecast = Some w"
  unfolding matching_day_def
  by (induction forecast) (auto simp: image_iff)

text \<open>
  Claim C1, as amended. The score is 1, plus 1 for every interest whose lower-cased text
  occurs in the lower-cased category (counted with multiplicity, so in any order of the
  interest list), minus 1/2 when the event is an outdoor one and the first forecast day
  of the event's date has a condition containing "rain", minus another 1/2 when that
  day's precipitation chance, read as a number, exceeds 50. Without a day of the
  event's date nothing is subtracted. When the precipitation text is consulted and is no
  number the scorer raises. No clamping is applied, and the score is never negative.
\<close>

theorem relevance_score_formula:
  "calculate_event_relevance rt event interests forecast =
     (case matching_day event forecast of
        None \<Rightarrow> Inr (1 + real (interest_matches event interests))
      | Some w \<Rightarrow>
          if is_outdoor event then
            (case float_of_str rt (wi_precipitation_chance w) of
               None \<Rightarrow> Inl FloatValueError
             | Some p \<Rightarrow>
                 Inr (1 + real (interest_matches event interests)
                        - (if is_rainy w then 1 / 2 else 0)
                        - (if p > 50 then 1 / 2 else 0)))
          else Inr (1 + real (interest_matches event interests)))
   \<and> (\<forall>interests'. mset interests' = mset interests \<longrightarrow>
          calculate_event_relevance rt event interests' forecast =
          calculate_event_relevance rt event interests forecast)
   \<and> (\<forall>s. calculate_event_relevance rt event interests forecast = Inr s \<longrightarrow> 0 \<le> s)"
proof -
  have ord: "calculate_event_relevance rt event interests' forecast =
          calculate_event_relevance rt event interests forecast"
    if "mset interests' = mset interests" for interests'
  proof -
    from that have "interest_matches event interests' = interest_matches event interests"
      by (simp add: interest_matches_def)
    then show ?thesis
      by (simp only: relevance_closed_form)
  qed
  show ?thesis
    using relevance_closed_form [of rt event interests forecast] ord relevance_nonneg
    by blast
qed

theorem relevance_score_formula_witness:
  "calculate_event_relevance ref_runtime ex_event [''music'', ''FEST'', ''art'']
     [ex_day ''2025-01-31'' ''Sunny'' ''0'', ex_day ''2025-02-01'' ''Light Rain'' ''80''] = Inr 2
   \<and> calculate_event_relevance ref_runtime ex_event [''art'', ''FEST'', ''music'']
     [ex_day ''2025-01-31'' ''Sunny'' ''0'', ex_day ''2025-02-01'' ''Light Rain'' ''80''] = Inr 2
   \<and> (0::real) \<le> 2"
proof -
  let ?fc = "[ex_day ''2025-01-31'' ''Sunny'' ''0'', ex_day ''2025-02-01'' ''Light Rain'' ''80'']"
  have m: "matching_day ex_event ?fc = Some (ex_day ''2025-02-01'' ''Light Rain'' ''80'')"
    by code_simp
  have o: "is_outdoor ex_event" by code_simp
  have r: "is_rainy (ex_day ''2025-02-01'' ''Light Rain'' ''80'')" by code_simp
  have p: "float_of_str ref_runtime
             (wi_precipitation_chance (ex_day ''2025-02-01'' ''Light Rain'' ''80'')) = Some 80"
    by code_simp
  have i: "interest_matches ex_event [''music'', ''FEST'', ''art''] = 2" by code_simp
  have ms: "mset [''art'', ''FEST'', ''music''] = mset [''music'', ''FEST'', ''art'']"
    by simp
  note t = relevance_score_formula [of ref_runtime ex_event "[''music'', ''FEST'', ''art'']" ?fc]
  from t have v:
    "calculate_event_relevance ref_runtime ex_event [''music'', ''FEST'', ''art''] ?fc = Inr 2"
    by (simp add: m o r p i)
  from t ms have
    "calculate_event_relevance ref_runtime ex_event [''art'', ''FEST'', ''music''] ?fc
      = calculate_event_relevance ref_runtime ex_event [''music'', ''FEST'', ''art''] ?fc"
    by blast
  with v show ?thesis by simp
qed

text \<open>
  Claim C1 as stated says that the score may be negative. No input gives a negative
  score: at most 1 is subtracted from a baseline of 1.
\<close>

theorem relevance_may_be_negative_counterexample:
  "\<not> (\<exists>rt event interests forecast s.
        calculate_event_relevance rt event interests forecast = Inr s \<and> s < 0)"
  using relevance_nonneg by fastforce

text \<open>
  Claim C9, as amended. The scorer reads the precipitation text of one day only: the
  first forecast day of the event's date. An outdoor event for which that text is no
  number makes the scorer raise instead of returning a score; when the forecast has one
  day per date, this is any day of the event's date. An event that is not an outdoor
  one, or that has no forecast day of its date, always gets a score, and the score does
  not depend on how precipitation text would be read: the field is never parsed.
\<close>

theorem scorer_raises_iff_precipitation_read:
  "(is_outdoor event \<and> matching_day event forecast = Some w
      \<and> float_of_str rt (wi_precipitation_chance w) = None
      \<longrightarrow> calculate_event_relevance rt event interests forecast = Inl FloatValueError)
   \<and> (is_outdoor event \<and> distinct (map wi_date forecast) \<and> w \<in> set forecast
      \<and> wi_date w = ev_date event \<and> float_of_str rt (wi_precipitation_chance w) = None
      \<longrightarrow> calculate_event_relevance rt event interests forecast = Inl FloatValueError)
   \<and> (\<not> is_outdoor event \<or> matching_day event forecast = None
      \<longrightarrow> (\<exists>s. calculate_event_relevance rt event interests forecast = Inr s)
        \<and> (\<forall>rt'. calculate_event_relevance rt' event interests forecast =
                  calculate_event_relevance rt event interests forecast))"
proof (intro conjI impI)
  assume "is_outdoor event \<and> matching_day event forecast = Some w
      \<and> float_of_str rt (wi_precipitation_chance w) = None"
  then show "calculate_event_relevance rt event interests forecast = Inl FloatValueError"
    by (simp add: relevance_closed_form)
next
  assume a: "is_outdoor event \<and> distinct (map wi_date forecast) \<and> w \<in> set forecast
      \<and> wi_date w = ev_date event \<and> float_of_str rt (wi_precipitation_chance w) = None"
  then have "matching_day event forecast = Some w"
    by (simp add: matching_day_distinct)
  with a show "calculate_event_relevance rt event interests forecast = Inl FloatValueError"
    by (simp add: relevance_closed_form)
next
  assume "\<not> is_outdoor event \<or> matching_day event forecast = None"
  then show "\<exists>s. calculate_event_relevance rt event interests forecast = Inr s"
    by (auto simp: relevance_closed_form split: option.splits)
next
  assume "\<not> is_outdoor event \<or> matching_day event forecast = None"
  then show "\<forall>rt'. calculate_event_relevance rt' event interests forecast =
                  calculate_event_relevance rt event interests forecast"
    by (auto simp: relevance_closed_form split: option.splits)
qed

theorem scorer_raises_iff_precipitation_read_witness:
  "calculate_event_relevance ref_runtime ex_event [''music'']
     [ex_day ''2025-02-01'' ''Cloudy'' ''abc''] = Inl FloatValueError
   \<and> (\<exists>s. calculate_event_relevance ref_runtime indoor_event [''music'']
     [ex_day ''2025-02-01'' ''Cloudy'' ''abc''] = Inr s)
   \<and> (\<exists>s. calculate_event_relevance ref_runtime ex_event [''music'']
     [ex_day ''2025-02-02'' ''Cloudy'' ''abc''] = Inr s)"
proof -
  let ?w = "ex_day ''2025-02-01'' ''Cloudy'' ''abc''"
  have o: "is_outdoor ex_event" by code_simp
  have m: "matching_day ex_event [?w] = Some ?w" by code_simp
  have d: "distinct (map wi_date [?w])" "?w \<in> set [?w]" by simp_all
  have p: "float_of_str ref_runtime (wi_precipitation_chance ?w) = None" by code_simp
  have n: "\<not> is_outdoor indoor_event" by code_simp
  have m2: "matching_day ex_event [ex_day ''2025-02-02'' ''Cloudy'' ''abc''] = None"
    by code_simp
  from o m p
    scorer_raises_iff_precipitation_read [of ex_event "[?w]" ?w ref_runtime "[''music'']"]
  have 1: "calculate_event_relevance ref_runtime ex_event [''music''] [?w] = Inl FloatValueError"
    by blast
  from n scorer_raises_iff_precipitation_read [of indoor_event "[?w]" ?w ref_runtime "[''music'']"]
  have 2: "\<exists>s. calculate_event_relevance ref_runtime indoor_event [''music''] [?w] = Inr s"
    by blast
  from m2 scorer_raises_iff_precipitation_read
    [of ex_event "[ex_day ''2025-02-02'' ''Cloudy'' ''abc'']" ?w ref_runtime "[''music'']"]
  have 3: "\<exists>s. calculate_event_relevance ref_runtime ex_event [''music'']
     [ex_day ''2025-02-02'' ''Cloudy'' ''abc''] = Inr s"
    by blast
  from 1 2 3 show ?thesis by blast
qed

text \<open>
  Claim C9 as stated fails when the day with the unreadable precipitation text is not
  the first day of the event's date: the loop stops at the first day of that date, the
  later day is never read, and the scorer returns a score.
\<close>

theorem scorer_reads_first_day_only_counterexample:
  "is_outdoor ex_event
   \<and> ex_day ''2025-02-01'' ''Cloudy'' ''abc''
        \<in> set [ex_day ''2025-02-01'' ''Cloudy'' ''10'', ex_day ''2025-02-01'' ''Cloudy'' ''abc'']
   \<and> wi_date (ex_day ''2025-02-01'' ''Cloudy'' ''abc'') = ev_date ex_event
   \<and> float_of_str ref_runtime (wi_precipitation_chance (ex_day ''2025-02-01'' ''Cloudy'' ''abc''))
        = None
   \<and> calculate_event_relevance ref_runtime ex_event [''music'']
        [ex_day ''2025-02-01'' ''Cloudy'' ''10'', ex_day ''2025-02-01'' ''Cloudy'' ''abc'']
        = Inr 2"
proof (intro conjI)
  show "is_outdoor ex_event" by code_simp
  show "ex_day ''2025-02-01'' ''Cloudy'' ''abc''
        \<in> set [ex_day ''2025-02-01'' ''Cloudy'' ''10'', ex_day ''2025-02-01'' ''Cloudy'' ''abc'']"
    by simp
  show "wi_date (ex_day ''2025-02-01'' ''Cloudy'' ''abc'') = ev_date ex_event"
    by (simp add: ex_day_def ex_event_def)
  show "float_of_str ref_runtime (wi_precipitation_chance (ex_day ''2025-02-01'' ''Cloudy'' ''abc''))
        = None"
    by code_simp
  show "calculate_event_relevance ref_runtime ex_event [''music'']
        [ex_day ''2025-02-01'' ''Cloudy'' ''10'', ex_day ''2025-02-01'' ''Cloudy'' ''abc'']
        = Inr 2"
    by code_simp
qed

section \<open>Validation and assembly: results\<close>

lemma and_then_Inr_iff:
  "and_then m f = Inr y \<longleftrightarrow> (\<exists>x. m = Inr x \<and> f x = Inr y)"
  by (cases m) (simp_all add: and_then_def)

lemma and_then_Inl [simp]: "and_then (Inl e) f = Inl e"
  by (simp add: and_then_def)

lemma and_then_Inr [simp]: "and_then (Inr x) f = f x"
  by (simp add: and_then_def)

lemma missing_in_obj: "missing_in names (JObj d) = Inr (absent names d)"
  by (induction names) (auto simp: absent_def py_contains_def)

lemma validate_days_Cons_obj:
  "validate_days (JObj e # rest) =
     (if absent required_day_fields e \<noteq> []
      then Inl (ValueError (''Missing required fields in day data: ''
                             @ join '', '' (absent required_day_fields e)))
      else validate_days rest)"
  by (simp only: validate_days.simps json.case missing_in_obj sum.case)

lemma validate_days_obj_missing:
  "absent required_day_fields e \<noteq> [] \<Longrightarrow>
   validate_days (JObj e # rest) =
     Inl (ValueError (''Missing required fields in day data: ''
                       @ join '', '' (absent required_day_fields e)))"
  by (simp only: validate_days_Cons_obj simp_thms if_True)

lemma validate_days_obj_ok:
  "absent required_day_fields e = [] \<Longrightarrow> validate_days (JObj e # rest) = validate_days rest"
  by (simp only: validate_days_Cons_obj simp_thms if_False)

lemma validate_days_Cons_other:
  "\<forall>e. x \<noteq> JObj e \<Longrightarrow>
   validate_days (x # rest) =
     Inl (ValueError ''Each day in daily_itineraries must be a dictionary'')"
  by (cases x) (simp_all only: validate_days.simps json.case, simp)

lemma validate_days_first_missing:
  "\<forall>x \<in> set pre. \<exists>e. x = JObj e \<and> absent required_day_fields e = [] \<Longrightarrow>
   absent required_day_fields day \<noteq> [] \<Longrightarrow>
   validate_days (pre @ JObj day # post) =
     Inl (ValueError (''Missing required fields in day data: ''
                       @ join '', '' (absent required_day_fields day)))"
proof (induction pre)
  case Nil
  then show ?case by (simp only: append_Nil validate_days_obj_missing simp_thms)
next
  case (Cons x pre)
  then obtain e where e: "x = JObj e" "absent required_day_fields e = []" by auto
  from Cons have "validate_days (pre @ JObj day # post) =
     Inl (ValueError (''Missing required fields in day data: ''
                       @ join '', '' (absent required_day_fields day)))"
    by simp
  with e show ?case
    by (simp only: append_Cons validate_days_obj_ok simp_thms)
qed

lemma validate_days_first_not_dict:
  "\<forall>x \<in> set pre. \<exists>e. x = JObj e \<and> absent required_day_fields e = [] \<Longrightarrow>
   \<forall>e. x \<noteq> JObj e \<Longrightarrow>
   validate_days (pre @ x # post) =
     Inl (ValueError ''Each day in daily_itineraries must be a dictionary'')"
proof (induction pre)
  case Nil
  from Nil(2) have "validate_days (x # post) =
     Inl (ValueError ''Each day in daily_itineraries must be a dictionary'')"
    by (rule validate_days_Cons_other)
  then show ?case by (simp only: append_Nil)
next
  case (Cons y pre)
  then obtain e where e: "y = JObj e" "absent required_day_fields e = []" by auto
  from Cons have "validate_days (pre @ x # post) =
     Inl (ValueError ''Each day in daily_itineraries must be a dictionary'')"
    by simp
  with e show ?case
    by (simp only: append_Cons validate_days_obj_ok simp_thms)
qed

lemma day_error_mono: "day_error xs m \<Longrightarrow> day_error (x # xs) m"
  unfolding day_error_def by (elim disjE exE conjE) (blast, (rule disjI2, auto))

lemma validate_days_some_missing:
  "JObj day \<in> set ds \<Longrightarrow> absent required_day_fields day \<noteq> [] \<Longrightarrow>
   \<exists>m. validate_days ds = Inl (ValueError m) \<and> day_error ds m"
proof (induction ds)
  case Nil
  then show ?case by simp
next
  case (Cons x xs)
  show ?case
  proof (cases "\<exists>e. x = JObj e")
    case False
    then have "validate_days (x # xs) =
       Inl (ValueError ''Each day in daily_itineraries must be a dictionary'')"
      by (intro validate_days_Cons_other) blast
    moreover have "day_error (x # xs) ''Each day in daily_itineraries must be a dictionary''"
      unfolding day_error_def by (rule disjI1) (rule refl)
    ultimately show ?thesis by blast
  next
    case True
    then obtain e where e: "x = JObj e" by blast
    show ?thesis
    proof (cases "absent required_day_fields e = []")
      case True
      with Cons.prems e have "JObj day \<in> set xs" by auto
      from Cons.IH [OF this Cons.prems(2)] obtain m where
        m: "validate_days xs = Inl (ValueError m)" "day_error xs m" by blast
      from True e m(1) have "validate_days (x # xs) = Inl (ValueError m)"
        by (simp only: validate_days_obj_ok simp_thms)
      with m(2) show ?thesis using day_error_mono by blast
    next
      case False
      let ?m = "''Missing required fields in day data: ''
                  @ join '', '' (absent required_day_fields e)"
      from False e have "validate_days (x # xs) = Inl (ValueError ?m)"
        by (simp only: validate_days_obj_missing simp_thms)
      moreover have "day_error (x # xs) ?m"
        unfolding day_error_def
        by (rule disjI2, rule exI [of _ e]) (use False e in simp)
      ultimately show ?thesis by blast
    qed
  qed
qed

lemma validate_obj:
  "validate_itinerary_data (JObj d) =
     (if absent required_fields d \<noteq> []
      then Inl (ValueError (''Missing required fields in itinerary data: ''
                             @ join '', '' (absent required_fields d)))
      else (case map_of d ''daily_itineraries'' of
              Some (JArr ds) \<Rightarrow>
                if ds = [] then Inl (ValueError ''daily_itineraries cannot be empty'')
                else validate_days ds
            | Some _ \<Rightarrow> Inl (ValueError ''daily_itineraries must be a list'')
            | None \<Rightarrow> Inl KeyError))"
  by (simp add: validate_itinerary_data_def missing_in_obj subscript_def
           split: option.splits json.splits)

lemma assemble_validation_error:
  "validate_itinerary_data data = Inl e \<Longrightarrow> assemble_itinerary rt data fc = Inl e"
  by (simp add: assemble_itinerary_def)


lemma absent_Nil_iff: "absent names d = [] \<longleftrightarrow> (\<forall>k \<in> set names. map_of d k \<noteq> None)"
  by (auto simp: absent_def filter_empty_conv)

lemma required_days_present:
  "absent required_fields d = [] \<Longrightarrow> map_of d ''daily_itineraries'' \<noteq> None"
  unfolding absent_Nil_iff by (simp add: required_fields_def)

text \<open>
  Claim C5, as amended. The validation runs in order and the assembly fails with its
  first error. A top-level object that lacks any of trip_summary, daily_itineraries,
  recommendations fails with the Missing-Fields error naming exactly the absent fields,
  in the order of the required list. With all three present, a daily_itineraries value
  that is no list, or is the empty list, fails with an error of its own. With a
  non-empty list, the first entry that is not a complete dict decides: when it is a dict
  lacking any of date, activities, meals, transport, accommodation, the assembly fails
  with the Missing-Day-Fields error naming exactly the fields absent from that entry;
  when it is no dict, the assembly fails with the error that every day must be a
  dictionary. So whenever any entry lacks such a field the assembly fails, with one of
  these two errors, raised for the first offending entry.
\<close>

theorem missing_fields_errors:
  "(absent required_fields d \<noteq> [] \<longrightarrow>
      assemble_itinerary rt (JObj d) fc =
        Inl (ValueError (''Missing required fields in itinerary data: ''
                          @ join '', '' (absent required_fields d))))
   \<and> (absent required_fields d = [] \<and> (\<forall>ds. map_of d ''daily_itineraries'' \<noteq> Some (JArr ds)) \<longrightarrow>
      assemble_itinerary rt (JObj d) fc = Inl (ValueError ''daily_itineraries must be a list''))
   \<and> (absent required_fields d = [] \<and> map_of d ''daily_itineraries'' = Some (JArr []) \<longrightarrow>
      assemble_itinerary rt (JObj d) fc = Inl (ValueError ''daily_itineraries cannot be empty''))
   \<and> (absent required_fields d = []
        \<and> map_of d ''daily_itineraries'' = Some (JArr (pre @ JObj day # post))
        \<and> (\<forall>x \<in> set pre. \<exists>e. x = JObj e \<and> absent required_day_fields e = [])
        \<and> absent required_day_fields day \<noteq> [] \<longrightarrow>
      assemble_itinerary rt (JObj d) fc =
        Inl (ValueError (''Missing required fields in day data: ''
                          @ join '', '' (absent required_day_fields day))))
   \<and> (absent required_fields d = []
        \<and> map_of d ''daily_itineraries'' = Some (JArr (pre @ other # post))
        \<and> (\<forall>x \<in> set pre. \<exists>e. x = JObj e \<and> absent required_day_fields e = [])
        \<and> (\<forall>e. other \<noteq> JObj e) \<longrightarrow>
      assemble_itinerary rt (JObj d) fc =
        Inl (ValueError ''Each day in daily_itineraries must be a dictionary''))
   \<and> (absent required_fields d = [] \<and> map_of d ''daily_itineraries'' = Some (JArr ds)
        \<and> JObj day \<in> set ds \<and> absent required_day_fields day \<noteq> [] \<longrightarrow>
      (\<exists>m. assemble_itinerary rt (JObj d) fc = Inl (ValueError m) \<and> day_error ds m))"
proof (intro conjI impI)
  assume "absent required_fields d \<noteq> []"
  then have "validate_itinerary_data (JObj d) =
        Inl (ValueError (''Missing required fields in itinerary data: ''
                          @ join '', '' (absent required_fields d)))"
    by (simp only: validate_obj simp_thms if_True)
  then show "assemble_itinerary rt (JObj d) fc =
        Inl (ValueError (''Missing required fields in itinerary data: ''
                          @ join '', '' (absent required_fields d)))"
    by (rule assemble_validation_error)
next
  assume a: "absent required_fields d = [] \<and> (\<forall>ds. map_of d ''daily_itineraries'' \<noteq> Some (JArr ds))"
  then have "map_of d ''daily_itineraries'' \<noteq> None"
    by (simp add: required_days_present)
  with a have "validate_itinerary_data (JObj d) = Inl (ValueError ''daily_itineraries must be a list'')"
    by (simp add: validate_obj split: option.splits json.splits)
  then show "assemble_itinerary rt (JObj d) fc = Inl (ValueError ''daily_itineraries must be a list'')"
    by (rule assemble_validation_error)
next
  assume "absent required_fields d = [] \<and> map_of d ''daily_itineraries'' = Some (JArr [])"
  then have "validate_itinerary_data (JObj d) = Inl (ValueError ''daily_itineraries cannot be empty'')"
    by (simp add: validate_obj)
  then show "assemble_itinerary rt (JObj d) fc = Inl (ValueError ''daily_itineraries cannot be empty'')"
    by (rule assemble_validation_error)
next
  assume a: "absent required_fields d = []
        \<and> map_of d ''daily_itineraries'' = Some (JArr (pre @ JObj day # post))
        \<and> (\<forall>x \<in> set pre. \<exists>e. x = JObj e \<and> absent required_day_fields e = [])
        \<and> absent required_day_fields day \<noteq> []"
  then have "validate_itinerary_data (JObj d) = validate_days (pre @ JObj day # post)"
    by (simp add: validate_obj)
  also from a have "\<dots> = Inl (ValueError (''Missing required fields in day data: ''
                          @ join '', '' (absent required_day_fields day)))"
    by (intro validate_days_first_missing) blast+
  finally show "assemble_itinerary rt (JObj d) fc =
        Inl (ValueError (''Missing required fields in day data: ''
                          @ join '', '' (absent required_day_fields day)))"
    by (rule assemble_validation_error)
next
  assume a: "absent required_fields d = []
        \<and> map_of d ''daily_itineraries'' = Some (JArr (pre @ other # post))
        \<and> (\<forall>x \<in> set pre. \<exists>e. x = JObj e \<and> absent required_day_fields e = [])
        \<and> (\<forall>e. other \<noteq> JObj e)"
  then have "validate_itinerary_data (JObj d) = validate_days (pre @ other # post)"
    by (simp add: validate_obj)
  also from a have "\<dots> = Inl (ValueError ''Each day in daily_itineraries must be a dictionary'')"
    by (intro validate_days_first_not_dict) blast+
  finally show "assemble_itinerary rt (JObj d) fc =
        Inl (ValueError ''Each day in daily_itineraries must be a dictionary'')"
    by (rule assemble_validation_error)
next
  assume a: "absent required_fields d = [] \<and> map_of d ''daily_itineraries'' = Some (JArr ds)
        \<and> JObj day \<in> set ds \<and> absent required_day_fields day \<noteq> []"
  then have ne: "ds \<noteq> []" by auto
  from a obtain m where m: "validate_days ds = Inl (ValueError m)" "day_error ds m"
    using validate_days_some_missing by blast
  from a ne have "validate_itinerary_data (JObj d) = validate_days ds"
    by (simp add: validate_obj)
  with m(1) have "assemble_itinerary rt (JObj d) fc = Inl (ValueError m)"
    by (simp add: assemble_validation_error)
  with m(2) show "\<exists>m. assemble_itinerary rt (JObj d) fc = Inl (ValueError m) \<and> day_error ds m"
    by blast
qed

theorem missing_fields_errors_witness:
  "assemble_itinerary ref_runtime
       (JObj [(''trip_summary'', ex_summary), (''daily_itineraries'', JArr [])]) [] =
     Inl (ValueError ''Missing required fields in itinerary data: recommendations'')
   \<and> assemble_itinerary ref_runtime
       (JObj [(''trip_summary'', ex_summary), (''daily_itineraries'', JStr ''none''),
              (''recommendations'', JArr [])]) [] =
     Inl (ValueError ''daily_itineraries must be a list'')
   \<and> assemble_itinerary ref_runtime (JObj (ex_top [])) [] =
     Inl (ValueError ''daily_itineraries cannot be empty'')
   \<and> assemble_itinerary ref_runtime
       (JObj (ex_top [JObj (ex_day_fields ''2025-02-01''),
                      JObj [(''date'', JStr ''2025-02-02''), (''meals'', JArr [])],
                      JObj []])) [] =
     Inl (ValueError ''Missing required fields in day data: activities, transport, accommodation'')
   \<and> assemble_itinerary ref_runtime
       (JObj (ex_top [JObj (ex_day_fields ''2025-02-01''), JInt 5, JObj []])) [] =
     Inl (ValueError ''Each day in daily_itineraries must be a dictionary'')
   \<and> (\<exists>m. assemble_itinerary ref_runtime
       (JObj (ex_top [JInt 5, JObj [(''date'', JStr ''2025-02-02'')]])) [] = Inl (ValueError m))"
proof -
  let ?d1 = "[(''trip_summary'', ex_summary), (''daily_itineraries'', JArr [])]"
  let ?d2 = "[(''trip_summary'', ex_summary), (''daily_itineraries'', JStr ''none''),
              (''recommendations'', JArr [])]"
  let ?day2 = "[(''date'', JStr ''2025-02-02''), (''meals'', JArr [])]"
  let ?day3 = "[(''date'', JStr ''2025-02-02'')]"
  have a1: "absent required_fields ?d1 = [''recommendations'']" by code_simp
  have a2: "absent required_fields ?d2 = []" by code_simp
  have a3: "absent required_fields (ex_top ds) = []" for ds
    by (simp add: absent_def required_fields_def ex_top_def)
  have m3: "map_of (ex_top ds) ''daily_itineraries'' = Some (JArr ds)" for ds
    by (simp add: ex_top_def)
  have f1: "absent required_day_fields (ex_day_fields ''2025-02-01'') = []" by code_simp
  have f2: "absent required_day_fields ?day2 = [''activities'', ''transport'', ''accommodation'']"
    by code_simp
  have f3: "absent required_day_fields ?day3 \<noteq> []" by code_simp
  have j: "join '', '' [''activities'', ''transport'', ''accommodation'']
             = ''activities, transport, accommodation''" by simp
  have 1: "assemble_itinerary ref_runtime (JObj ?d1) [] =
     Inl (ValueError ''Missing required fields in itinerary data: recommendations'')"
    using missing_fields_errors [of ?d1 ref_runtime "[]"] a1 by simp
  have "\<forall>ds. map_of ?d2 ''daily_itineraries'' \<noteq> Some (JArr ds)" by simp
  with a2 have 2: "assemble_itinerary ref_runtime (JObj ?d2) [] =
     Inl (ValueError ''daily_itineraries must be a list'')"
    using missing_fields_errors [of ?d2 ref_runtime "[]"] by blast
  have 3: "assemble_itinerary ref_runtime (JObj (ex_top [])) [] =
     Inl (ValueError ''daily_itineraries cannot be empty'')"
    using missing_fields_errors [of "ex_top []" ref_runtime "[]"] a3 m3 by blast
  have pre: "\<forall>x \<in> set [JObj (ex_day_fields ''2025-02-01'')].
               \<exists>e. x = JObj e \<and> absent required_day_fields e = []"
    using f1 by simp
  have ne: "absent required_day_fields ?day2 \<noteq> []" using f2 by simp
  have m4: "map_of (ex_top [JObj (ex_day_fields ''2025-02-01''), JObj ?day2, JObj []])
              ''daily_itineraries''
            = Some (JArr ([JObj (ex_day_fields ''2025-02-01'')] @ JObj ?day2 # [JObj []]))"
    by (simp add: m3)
  have "assemble_itinerary ref_runtime
       (JObj (ex_top [JObj (ex_day_fields ''2025-02-01''), JObj ?day2, JObj []])) [] =
     Inl (ValueError (''Missing required fields in day data: ''
                          @ join '', '' (absent required_day_fields ?day2)))"
    using missing_fields_errors
      [where d = "ex_top [JObj (ex_day_fields ''2025-02-01''), JObj ?day2, JObj []]"
         and rt = ref_runtime and fc = "[]"
         and pre = "[JObj (ex_day_fields ''2025-02-01'')]" and day = ?day2
         and post = "[JObj []]"]
      a3 m4 pre ne by blast
  then have 4: "assemble_itinerary ref_runtime
       (JObj (ex_top [JObj (ex_day_fields ''2025-02-01''), JObj ?day2, JObj []])) [] =
     Inl (ValueError ''Missing required fields in day data: activities, transport, accommodation'')"
    by (simp only: f2 j) simp
  have m5: "map_of (ex_top [JObj (ex_day_fields ''2025-02-01''), JInt 5, JObj []])
              ''daily_itineraries''
            = Some (JArr ([JObj (ex_day_fields ''2025-02-01'')] @ JInt 5 # [JObj []]))"
    by (simp add: m3)
  have nd: "\<forall>e. JInt 5 \<noteq> JObj e" by simp
  have 5: "assemble_itinerary ref_runtime
       (JObj (ex_top [JObj (ex_day_fields ''2025-02-01''), JInt 5, JObj []])) [] =
     Inl (ValueError ''Each day in daily_itineraries must be a dictionary'')"
    using missing_fields_errors
      [where d = "ex_top [JObj (ex_day_fields ''2025-02-01''), JInt 5, JObj []]"
         and rt = ref_runtime and fc = "[]"
         and pre = "[JObj (ex_day_fields ''2025-02-01'')]" and other = "JInt 5"
         and post = "[JObj []]"]
      a3 m5 pre nd by blast
  have "JObj ?day3 \<in> set [JInt 5, JObj ?day3]" by simp
  then have 6: "\<exists>m. assemble_itinerary ref_runtime (JObj (ex_top [JInt 5, JObj ?day3])) []
                  = Inl (ValueError m)"
    using missing_fields_errors
      [where d = "ex_top [JInt 5, JObj ?day3]" and rt = ref_runtime and fc = "[]"
         and day = ?day3 and ds = "[JInt 5, JObj ?day3]"]
      a3 m3 f3 by blast
  from 1 2 3 4 5 6 show ?thesis by blast
qed

text \<open>
  Claim C5 as stated fails for an entry that is not the first offending one. In the list
  of an entry 5 and an entry with only a date, the second entry lacks four fields, and
  the assembly fails with the error that every day must be a dictionary. In the list of
  an entry lacking activities, transport and accommodation and an empty entry, the
  error names the three fields of the first entry, not the five of the second.
\<close>

theorem missing_day_fields_counterexample:
  "absent required_day_fields [(''date'', JStr ''2025-02-02'')] =
     [''activities'', ''meals'', ''transport'', ''accommodation'']
   \<and> assemble_itinerary ref_runtime
       (JObj (ex_top [JInt 5, JObj [(''date'', JStr ''2025-02-02'')]])) [] =
     Inl (ValueError ''Each day in daily_itineraries must be a dictionary'')
   \<and> absent required_day_fields [] =
     [''date'', ''activities'', ''meals'', ''transport'', ''accommodation'']
   \<and> assemble_itinerary ref_runtime
       (JObj (ex_top [JObj [(''date'', JStr ''2025-02-02''), (''meals'', JArr [])], JObj []])) [] =
     Inl (ValueError ''Missing required fields in day data: activities, transport, accommodation'')"
proof (intro conjI)
  show "absent required_day_fields [(''date'', JStr ''2025-02-02'')] =
     [''activities'', ''meals'', ''transport'', ''accommodation'']"
    by code_simp
  show "assemble_itinerary ref_runtime
       (JObj (ex_top [JInt 5, JObj [(''date'', JStr ''2025-02-02'')]])) [] =
     Inl (ValueError ''Each day in daily_itineraries must be a dictionary'')"
    by code_simp
  show "absent required_day_fields [] =
     [''date'', ''activities'', ''meals'', ''transport'', ''accommodation'']"
    by code_simp
  show "assemble_itinerary ref_runtime
       (JObj (ex_top [JObj [(''date'', JStr ''2025-02-02''), (''meals'', JArr [])], JObj []])) [] =
     Inl (ValueError ''Missing required fields in day data: activities, transport, accommodation'')"
    by code_simp
qed

lemma map_e_Inr: "map_e f xs = Inr ys \<Longrightarrow> list_all2 (\<lambda>x y. f x = Inr y) xs ys"
  by (induction xs arbitrary: ys) (auto split: sum.splits)


lemma map_e_fail: "x \<in> set xs \<Longrightarrow> f x = Inl e \<Longrightarrow> \<exists>e'. map_e f xs = Inl e'"
  by (induction xs) (auto split: sum.splits)

lemma and_then_fail: "m = Inl e \<Longrightarrow> and_then m f = Inl e"
  by simp

lemma assemble_Inr:
  assumes "assemble_itinerary rt data fc = Inr it"
  shows "\<exists>d ds. data = JObj d \<and> map_of d ''daily_itineraries'' = Some (JArr ds)
           \<and> map_e (build_day rt fc) ds = Inr (daily_itineraries it)
           \<and> total_cost it = sum_floats rt (map (day_cost rt) (daily_itineraries it))"
proof -
  from assms obtain days_data day_list days where
    v: "validate_itinerary_data data = Inr ()" and
    s: "subscript data ''daily_itineraries'' = Inr days_data" and
    i: "py_iter days_data = Inr day_list" and
    m: "map_e (build_day rt fc) day_list = Inr days" and
    d: "daily_itineraries it = days" and
    t: "total_cost it = sum_floats rt (map (day_cost rt) days)"
    unfolding assemble_itinerary_def and_then_Inr_iff by force
  from s obtain dd where dd: "data = JObj dd" "map_of dd ''daily_itineraries'' = Some days_data"
    by (auto simp: subscript_def split: json.splits option.splits)
  from v dd have "\<exists>ds. days_data = JArr ds"
    by (auto simp: validate_obj split: if_splits json.splits)
  then obtain ds where ds: "days_data = JArr ds" by blast
  with i have "day_list = ds" by (simp add: py_iter_def)
  with dd ds m d t show ?thesis by auto
qed

lemma build_day_Inr:
  assumes "build_day rt fc day_data = Inr di"
  shows "build_costs rt day_data = Inr (di_estimated_costs di)"
    and "build_weather_summary rt day_data = Inr (di_weather_summary di)"
  using assms unfolding build_day_def and_then_Inr_iff
  by (auto split: option.splits)


lemma build_costs_components:
  assumes "build_costs rt (JObj day) = Inr c"
  shows "case map_of day ''estimated_costs'' of
           None \<Rightarrow> cost_activities c = Finite 0 \<and> cost_meals c = Finite 0
                    \<and> cost_transport c = Finite 0 \<and> cost_accommodation c = Finite 0
         | Some v \<Rightarrow> \<exists>e. v = JObj e
                    \<and> component_of rt e ''activities'' (cost_activities c)
                    \<and> component_of rt e ''meals'' (cost_meals c)
                    \<and> component_of rt e ''transport'' (cost_transport c)
                    \<and> component_of rt e ''accommodation'' (cost_accommodation c)"
proof -
  from assms obtain e where
    k: "kwargs (dict_get day ''estimated_costs'' (JObj [])) = Inr e" and
    i: "EstimatedCosts_init rt e = Inr c"
    unfolding build_costs_def and_then_Inr_iff by (auto simp: method_get_def)
  from i have comp:
    "component_of rt e ''activities'' (cost_activities c)"
    "component_of rt e ''meals'' (cost_meals c)"
    "component_of rt e ''transport'' (cost_transport c)"
    "component_of rt e ''accommodation'' (cost_accommodation c)"
    unfolding EstimatedCosts_init_def and_then_Inr_iff
    by (auto simp: optional_float_def component_of_def split: option.splits)
  show ?thesis
  proof (cases "map_of day ''estimated_costs''")
    case None
    with k have "e = []" by (simp add: dict_get_def kwargs_def)
    with comp None show ?thesis by (simp add: component_of_def)
  next
    case (Some v)
    with k have "v = JObj e" by (simp add: dict_get_def kwargs_def split: json.splits)
    with comp Some show ?thesis by simp
  qed
qed

lemma assemble_ignores_total_cost:
  assumes "\<forall>k. k \<noteq> ''total_cost'' \<longrightarrow> map_of d k = map_of d' k"
  shows "assemble_itinerary rt (JObj d) fc = assemble_itinerary rt (JObj d') fc"
proof -
  have a: "map_of d ''trip_summary'' = map_of d' ''trip_summary''"
    using assms by simp
  have b: "map_of d ''daily_itineraries'' = map_of d' ''daily_itineraries''"
    using assms by simp
  have c: "map_of d ''recommendations'' = map_of d' ''recommendations''"
    using assms by simp
  have "absent required_fields d = absent required_fields d'"
    by (simp add: absent_def required_fields_def a b c)
  then have v: "validate_itinerary_data (JObj d) = validate_itinerary_data (JObj d')"
    by (simp only: validate_obj b)
  show ?thesis
    unfolding assemble_itinerary_def v
    by (simp add: subscript_def method_get_def dict_get_def a b c)
qed

lemma day_cost_four: "day_cost rt = four_components rt"
  by (intro ext) (simp add: day_cost_def four_components_def Let_def)

lemma ref_sum_rounds:
  "ref_sum [Finite 10000000000000000, Finite 1, Finite 1] = Finite 10000000000000000"
  by code_simp

text \<open>
  Claim C2. The total cost of every assembled itinerary is the sum, as the builtin sum
  computes it on floats, of the per-day sums of the four components of the day's cost
  breakdown. Where the builtin is the chain of float additions from the left, that is
  ((((0 + a) + m) + t) + h) for each day and the same chain over the days, every
  addition rounded to a double. The breakdown of each assembled day is built from the
  day's entry in the response; a component whose key is missing (or all four, when the
  entry has no estimated_costs) is 0.0, a component that is given has its validated
  value. The total_cost key of the response is never read: two responses that differ
  only there assemble to the same result.
\<close>

theorem total_cost_recomputed:
  "(assemble_itinerary rt data fc = Inr it \<longrightarrow>
      total_cost it = sum_floats rt (map (four_components rt) (daily_itineraries it))
      \<and> (sum_floats rt = ref_sum \<longrightarrow>
           total_cost it =
             foldl float_add (Finite 0)
               (map (\<lambda>day. float_add (float_add (float_add (float_add (Finite 0)
                              (cost_activities (di_estimated_costs day)))
                              (cost_meals (di_estimated_costs day)))
                              (cost_transport (di_estimated_costs day)))
                              (cost_accommodation (di_estimated_costs day)))
                    (daily_itineraries it)))
      \<and> (\<exists>d ds. data = JObj d \<and> map_of d ''daily_itineraries'' = Some (JArr ds)
           \<and> list_all2 (\<lambda>day_data day. build_costs rt day_data = Inr (di_estimated_costs day))
                ds (daily_itineraries it)))
   \<and> (build_costs rt (JObj day) = Inr c \<longrightarrow>
       (case map_of day ''estimated_costs'' of
           None \<Rightarrow> cost_activities c = Finite 0 \<and> cost_meals c = Finite 0
                    \<and> cost_transport c = Finite 0 \<and> cost_accommodation c = Finite 0
         | Some v \<Rightarrow> \<exists>e. v = JObj e
                    \<and> component_of rt e ''activities'' (cost_activities c)
                    \<and> component_of rt e ''meals'' (cost_meals c)
                    \<and> component_of rt e ''transport'' (cost_transport c)
                    \<and> component_of rt e ''accommodation'' (cost_accommodation c)))
   \<and> ((\<forall>k. k \<noteq> ''total_cost'' \<longrightarrow> map_of obj k = map_of obj' k) \<longrightarrow>
       assemble_itinerary rt (JObj obj) fc = assemble_itinerary rt (JObj obj') fc)"
proof (intro conjI impI)
  assume a: "assemble_itinerary rt data fc = Inr it"
  from assemble_Inr [OF a] obtain d ds where
    d: "data = JObj d" "map_of d ''daily_itineraries'' = Some (JArr ds)"
       "map_e (build_day rt fc) ds = Inr (daily_itineraries it)"
       "total_cost it = sum_floats rt (map (day_cost rt) (daily_itineraries it))"
    by blast
  from d(4) show t: "total_cost it = sum_floats rt (map (four_components rt) (daily_itineraries it))"
    by (simp only: day_cost_four)
  {
    assume r: "sum_floats rt = ref_sum"
    have "four_components rt day =
            float_add (float_add (float_add (float_add (Finite 0)
                              (cost_activities (di_estimated_costs day)))
                              (cost_meals (di_estimated_costs day)))
                              (cost_transport (di_estimated_costs day)))
                              (cost_accommodation (di_estimated_costs day))" for day
      by (simp add: four_components_def r ref_sum_def)
    then have "map (four_components rt) (daily_itineraries it) =
               map (\<lambda>day. float_add (float_add (float_add (float_add (Finite 0)
                              (cost_activities (di_estimated_costs day)))
                              (cost_meals (di_estimated_costs day)))
                              (cost_transport (di_estimated_costs day)))
                              (cost_accommodation (di_estimated_costs day)))
                    (daily_itineraries it)"
      by simp
    with t show "total_cost it =
             foldl float_add (Finite 0)
               (map (\<lambda>day. float_add (float_add (float_add (float_add (Finite 0)
                              (cost_activities (di_estimated_costs day)))
                              (cost_meals (di_estimated_costs day)))
                              (cost_transport (di_estimated_costs day)))
                              (cost_accommodation (di_estimated_costs day)))
                    (daily_itineraries it))"
      by (simp only: r ref_sum_def)
  }
  from map_e_Inr [OF d(3)]
  have "list_all2 (\<lambda>day_data day. build_costs rt day_data = Inr (di_estimated_costs day))
                ds (daily_itineraries it)"
    by (rule list_all2_mono) (rule build_day_Inr)
  with d(1,2) show "\<exists>d ds. data = JObj d \<and> map_of d ''daily_itineraries'' = Some (JArr ds)
           \<and> list_all2 (\<lambda>day_data day. build_costs rt day_data = Inr (di_estimated_costs day))
                ds (daily_itineraries it)"
    by blast
next
  assume "build_costs rt (JObj day) = Inr c"
  then show "case map_of day ''estimated_costs'' of
           None \<Rightarrow> cost_activities c = Finite 0 \<and> cost_meals c = Finite 0
                    \<and> cost_transport c = Finite 0 \<and> cost_accommodation c = Finite 0
         | Some v \<Rightarrow> \<exists>e. v = JObj e
                    \<and> component_of rt e ''activities'' (cost_activities c)
                    \<and> component_of rt e ''meals'' (cost_meals c)
                    \<and> component_of rt e ''transport'' (cost_transport c)
                    \<and> component_of rt e ''accommodation'' (cost_accommodation c)"
    by (rule build_costs_components)
next
  assume "\<forall>k. k \<noteq> ''total_cost'' \<longrightarrow> map_of obj k = map_of obj' k"
  then show "assemble_itinerary rt (JObj obj) fc = assemble_itinerary rt (JObj obj') fc"
    by (rule assemble_ignores_total_cost)
qed

theorem total_cost_recomputed_witness:
  "(\<exists>it. assemble_itinerary ref_runtime (JObj (ex_top ex_days)) [] = Inr it
        \<and> total_cost it = Finite (301 / 2)
        \<and> total_cost it = sum_floats ref_runtime (map (four_components ref_runtime) (daily_itineraries it))
        \<and> total_cost it =
             foldl float_add (Finite 0)
               (map (\<lambda>day. float_add (float_add (float_add (float_add (Finite 0)
                              (cost_activities (di_estimated_costs day)))
                              (cost_meals (di_estimated_costs day)))
                              (cost_transport (di_estimated_costs day)))
                              (cost_accommodation (di_estimated_costs day)))
                    (daily_itineraries it)))
   \<and> (\<exists>c. build_costs ref_runtime (JObj (ex_day_fields ''2025-02-02'')) = Inr c
        \<and> cost_meals c = Finite 0)
   \<and> assemble_itinerary ref_runtime (JObj (ex_top ex_days)) [] =
       assemble_itinerary ref_runtime (JObj ((''total_cost'', JInt 0) # ex_top ex_days)) []
   \<and> sum_floats ref_runtime [Finite 10000000000000000, Finite 1, Finite 1]
       = Finite 10000000000000000"
proof -
  have e: "map_sum id total_cost (assemble_itinerary ref_runtime (JObj (ex_top ex_days)) [])
             = Inr (Finite (301 / 2))"
    by code_simp
  then obtain it where it: "assemble_itinerary ref_runtime (JObj (ex_top ex_days)) [] = Inr it"
    by (cases "assemble_itinerary ref_runtime (JObj (ex_top ex_days)) []") auto
  with e have t: "total_cost it = Finite (301 / 2)" by simp
  have rs: "sum_floats ref_runtime = ref_sum" by (simp add: ref_runtime_def)
  note T = total_cost_recomputed [where rt = ref_runtime and data = "JObj (ex_top ex_days)"
                                    and fc = "[]" and it = it]
  from T it
  have s: "total_cost it = sum_floats ref_runtime (map (four_components ref_runtime) (daily_itineraries it))"
    by blast
  from T it rs
  have s': "total_cost it =
             foldl float_add (Finite 0)
               (map (\<lambda>day. float_add (float_add (float_add (float_add (Finite 0)
                              (cost_activities (di_estimated_costs day)))
                              (cost_meals (di_estimated_costs day)))
                              (cost_transport (di_estimated_costs day)))
                              (cost_accommodation (di_estimated_costs day)))
                    (daily_itineraries it))"
    by blast
  have "isl (build_costs ref_runtime (JObj (ex_day_fields ''2025-02-02''))) = False"
    by code_simp
  then obtain c where c: "build_costs ref_runtime (JObj (ex_day_fields ''2025-02-02'')) = Inr c"
    by (cases "build_costs ref_runtime (JObj (ex_day_fields ''2025-02-02''))") auto
  have n: "map_of (ex_day_fields ''2025-02-02'') ''estimated_costs'' = None"
    by code_simp
  from total_cost_recomputed [where rt = ref_runtime and day = "ex_day_fields ''2025-02-02''" and c = c] c n
  have z: "cost_meals c = Finite 0" by simp
  have "\<forall>k. k \<noteq> ''total_cost'' \<longrightarrow>
          map_of (ex_top ex_days) k = map_of ((''total_cost'', JInt 0) # ex_top ex_days) k"
    by simp
  with total_cost_recomputed
    [where rt = ref_runtime and fc = "[]" and obj = "ex_top ex_days"
       and obj' = "(''total_cost'', JInt 0) # ex_top ex_days"]
  have i: "assemble_itinerary ref_runtime (JObj (ex_top ex_days)) [] =
       assemble_itinerary ref_runtime (JObj ((''total_cost'', JInt 0) # ex_top ex_days)) []"
    by blast
  have r: "sum_floats ref_runtime [Finite 10000000000000000, Finite 1, Finite 1]
       = Finite 10000000000000000"
    by (simp only: rs ref_sum_rounds)
  from it t s s' c z i r show ?thesis by blast
qed

lemma not_Inr_Inl: "(\<forall>y. m \<noteq> Inr y) \<Longrightarrow> \<exists>e. m = Inl e"
  by (cases m) auto

lemma build_day_summary_fail:
  "build_weather_summary rt day_data = Inl e \<Longrightarrow> \<exists>e'. build_day rt fc day_data = Inl e'"
  using build_day_Inr(2) [of rt fc day_data] by (intro not_Inr_Inl) fastforce

lemma assemble_day_fail:
  assumes "map_of d ''daily_itineraries'' = Some (JArr ds)" "x \<in> set ds"
    "build_day rt fc x = Inl e"
  shows "\<exists>e'. assemble_itinerary rt (JObj d) fc = Inl e'"
proof (rule not_Inr_Inl, rule allI, rule notI)
  fix it assume "assemble_itinerary rt (JObj d) fc = Inr it"
  from assemble_Inr [OF this] assms(1)
  have "map_e (build_day rt fc) ds = Inr (daily_itineraries it)" by auto
  with map_e_fail [of x ds "build_day rt fc" e] assms(2,3) show False by auto
qed

lemma summary_incomplete_fail:
  assumes "map_of day ''weather_summary'' = Some v" "summary_incomplete v"
  shows "\<exists>e. build_weather_summary rt (JObj day) = Inl e"
proof (cases v)
  case (JObj s)
  with assms(2) have "map_of s ''description'' = None \<or> map_of s ''recommendations'' = None"
    by (simp add: summary_incomplete_def)
  then have "\<exists>e. WeatherSummary_init rt s = Inl e"
    by (cases "required_str rt s ''description''")
       (auto simp: WeatherSummary_init_def required_str_def)
  with assms(1) JObj show ?thesis
    by (simp add: build_weather_summary_def method_get_def dict_get_def kwargs_def)
qed (use assms(1) in \<open>simp_all add: build_weather_summary_def method_get_def dict_get_def kwargs_def\<close>)

lemma summary_absent_default:
  assumes "map_of day ''weather_summary'' = None"
    "str_validator rt (JStr ''No data'') = Some ''No data''"
  shows "build_weather_summary rt (JObj day) =
           Inr \<lparr>ws_description = ''No data'', ws_recommendations = ''No data''\<rparr>"
  using assms
  by (simp add: build_weather_summary_def method_get_def dict_get_def kwargs_def no_data_def
        WeatherSummary_init_def required_str_def)

lemma summary_present_used:
  assumes "map_of day ''weather_summary'' = Some v"
    "build_weather_summary rt (JObj day) = Inr ws"
  shows "\<exists>s x y. v = JObj s
           \<and> map_of s ''description'' = Some x \<and> str_validator rt x = Some (ws_description ws)
           \<and> map_of s ''recommendations'' = Some y
           \<and> str_validator rt y = Some (ws_recommendations ws)"
proof -
  from assms obtain s where s: "v = JObj s" "WeatherSummary_init rt s = Inr ws"
    unfolding build_weather_summary_def and_then_Inr_iff
    by (auto simp: method_get_def dict_get_def kwargs_def split: json.splits)
  from s(2) have "\<exists>x y. map_of s ''description'' = Some x
           \<and> str_validator rt x = Some (ws_description ws)
           \<and> map_of s ''recommendations'' = Some y
           \<and> str_validator rt y = Some (ws_recommendations ws)"
    unfolding WeatherSummary_init_def and_then_Inr_iff
    by (auto simp: required_str_def split: option.splits)
  with s(1) show ?thesis by blast
qed

text \<open>
  Claim C10. The "No data" weather summary is what an entry without a weather_summary key
  gets. When the key is present and its value is no dict, or a dict without description
  or without recommendations, building the summary fails, so building the day fails, so
  the whole assembly fails. When the key is present and the summary is built, its two
  fields are the validated values given, not the defaults.
\<close>

theorem weather_summary_defaults_only_when_absent:
  "(map_of day ''weather_summary'' = None
      \<and> str_validator rt (JStr ''No data'') = Some ''No data'' \<longrightarrow>
      build_weather_summary rt (JObj day) =
        Inr \<lparr>ws_description = ''No data'', ws_recommendations = ''No data''\<rparr>)
   \<and> (map_of day ''weather_summary'' = Some v \<and> summary_incomplete v \<longrightarrow>
      (\<exists>e. build_weather_summary rt (JObj day) = Inl e)
      \<and> (\<exists>e. build_day rt fc (JObj day) = Inl e)
      \<and> (map_of d ''daily_itineraries'' = Some (JArr ds) \<and> JObj day \<in> set ds \<longrightarrow>
           (\<exists>e. assemble_itinerary rt (JObj d) fc = Inl e)))
   \<and> (map_of day ''weather_summary'' = Some v
      \<and> build_weather_summary rt (JObj day) = Inr ws \<longrightarrow>
      (\<exists>s x y. v = JObj s
           \<and> map_of s ''description'' = Some x \<and> str_validator rt x = Some (ws_description ws)
           \<and> map_of s ''recommendations'' = Some y
           \<and> str_validator rt y = Some (ws_recommendations ws)))"
proof -
  have 2: "(\<exists>e. build_weather_summary rt (JObj day) = Inl e)
      \<and> (\<exists>e. build_day rt fc (JObj day) = Inl e)
      \<and> (map_of d ''daily_itineraries'' = Some (JArr ds) \<and> JObj day \<in> set ds \<longrightarrow>
           (\<exists>e. assemble_itinerary rt (JObj d) fc = Inl e))"
    if a: "map_of day ''weather_summary'' = Some v" "summary_incomplete v"
  proof -
    from summary_incomplete_fail [OF a] obtain e where
      e: "build_weather_summary rt (JObj day) = Inl e" by blast
    from build_day_summary_fail [OF e] obtain e' where
      e': "build_day rt fc (JObj day) = Inl e'" by blast
    from e e' assemble_day_fail show ?thesis by blast
  qed
  from 2 summary_absent_default summary_present_used show ?thesis by blast
qed

theorem weather_summary_defaults_only_when_absent_witness:
  "build_weather_summary ref_runtime (JObj (ex_day_fields ''2025-02-01'')) =
        Inr \<lparr>ws_description = ''No data'', ws_recommendations = ''No data''\<rparr>
   \<and> (\<exists>e. assemble_itinerary ref_runtime
         (JObj (ex_top [JObj ((''weather_summary'', JObj [(''description'', JStr ''Mild'')])
                              # ex_day_fields ''2025-02-01'')])) [] = Inl e)
   \<and> (\<exists>e. assemble_itinerary ref_runtime
         (JObj (ex_top [JObj ((''weather_summary'', JStr ''Mild'')
                              # ex_day_fields ''2025-02-01'')])) [] = Inl e)
   \<and> build_weather_summary ref_runtime
         (JObj ((''weather_summary'',
                   JObj [(''description'', JStr ''Mild''), (''recommendations'', JStr ''Walk'')])
                # ex_day_fields ''2025-02-01'')) =
        Inr \<lparr>ws_description = ''Mild'', ws_recommendations = ''Walk''\<rparr>"
proof -
  let ?v1 = "JObj [(''description'', JStr ''Mild'')]"
  let ?v2 = "JStr ''Mild''"
  let ?v3 = "JObj [(''description'', JStr ''Mild''), (''recommendations'', JStr ''Walk'')]"
  let ?day = "\<lambda>v. (''weather_summary'', v) # ex_day_fields ''2025-02-01''"
  note t = weather_summary_defaults_only_when_absent
  have n: "map_of (ex_day_fields ''2025-02-01'') ''weather_summary'' = None" by code_simp
  have sv: "str_validator ref_runtime (JStr ''No data'') = Some ''No data''" by code_simp
  from t [where day = "ex_day_fields ''2025-02-01''" and rt = ref_runtime] n sv
  have 1: "build_weather_summary ref_runtime (JObj (ex_day_fields ''2025-02-01'')) =
        Inr \<lparr>ws_description = ''No data'', ws_recommendations = ''No data''\<rparr>"
    by blast
  have p: "map_of (?day v) ''weather_summary'' = Some v" for v by simp
  have m: "map_of (ex_top ds) ''daily_itineraries'' = Some (JArr ds)" for ds
    by (simp add: ex_top_def)
  have i1: "summary_incomplete ?v1" by code_simp
  have i2: "summary_incomplete ?v2" by code_simp
  from t [where day = "?day ?v1" and v = ?v1 and rt = ref_runtime and fc = "[]"
            and d = "ex_top [JObj (?day ?v1)]" and ds = "[JObj (?day ?v1)]"] p i1 m
  have 2: "\<exists>e. assemble_itinerary ref_runtime (JObj (ex_top [JObj (?day ?v1)])) [] = Inl e"
    by simp
  from t [where day = "?day ?v2" and v = ?v2 and rt = ref_runtime and fc = "[]"
            and d = "ex_top [JObj (?day ?v2)]" and ds = "[JObj (?day ?v2)]"] p i2 m
  have 3: "\<exists>e. assemble_itinerary ref_runtime (JObj (ex_top [JObj (?day ?v2)])) [] = Inl e"
    by simp
  have 4: "build_weather_summary ref_runtime (JObj (?day ?v3)) =
        Inr \<lparr>ws_description = ''Mild'', ws_recommendations = ''Walk''\<rparr>"
    by code_simp
  from 1 2 3 4 show ?thesis by blast
qed
















end
